theory Spec2Isabelle
  imports Complex_Main "HOL-Library.Log_Nat"
begin

section \<open>Strings and numbers of the source language\<close>

text \<open>
  The functions under verification are the Cloud Functions of the invoice tracker
  (\<^verbatim>\<open>pickEntity\<close>, \<^verbatim>\<open>entityText\<close>, \<^verbatim>\<open>toNumberLoose\<close>, \<^verbatim>\<open>entityMoneyToNumber\<close>,
  \<^verbatim>\<open>entityDateToTimestamp\<close>, \<^verbatim>\<open>parseLineItemFromMentionText\<close>, \<^verbatim>\<open>parseLineItems\<close>,
  \<^verbatim>\<open>processInvoiceOnCreateV2\<close>, \<^verbatim>\<open>processInvoiceDocument\<close>, \<^verbatim>\<open>reprocessInvoiceV2\<close>)
  and the \<^verbatim>\<open>save\<close> function of the invoice review page, of which the sources
  hold two copies.

  Conventions of the embedding.
  \<^item> A string is a \<open>string\<close>: a list of code units, each below 256. The character
    classes of the regular expressions are those of the source language on that range:
    \<^verbatim>\<open>\d\<close> is \<open>0-9\<close>, \<^verbatim>\<open>\w\<close> is \<open>A-Z a-z 0-9 _\<close>, \<^verbatim>\<open>\s\<close> is tab, line feed,
    vertical tab, form feed, carriage return, space and the no-break space.
  \<^item> A finite number is a rational \<open>v\<close> that stands for the double nearest to it,
    \<open>toDouble v\<close>: a decimal literal stands for the number it is parsed to. The
    arithmetic of the backfill (a product or a quotient, times 100, rounded,
    divided by 100) is done on the doubles, each operation rounded to the
    nearest double, ties to even. Overflow and subnormal numbers are not part
    of the model. The result of parsing a string as a number is a \<open>rat option\<close>,
    \<open>None\<close> being NaN.
  \<^item> \<open>null\<close> and \<open>undefined\<close> are \<open>None\<close>.
\<close>

definition isDigit :: "char \<Rightarrow> bool" where
  "isDigit c = (c \<in> set ''0123456789'')"

definition isWordChar :: "char \<Rightarrow> bool" where
  "isWordChar c =
     (c \<in> set ''abcdefghijklmnopqrstuvwxyzABCDEFGHIJKLMNOPQRSTUVWXYZ0123456789_'')"

definition isSpace :: "char \<Rightarrow> bool" where
  "isSpace c =
     (c \<in> set [CHR 0x09, CHR 0x0A, CHR 0x0B, CHR 0x0C, CHR 0x0D, CHR '' '', CHR 0xA0])"

text \<open>\<^verbatim>\<open>String.prototype.trim\<close>.\<close>

definition trim :: "string \<Rightarrow> string" where
  "trim s = rev (dropWhile isSpace (rev (dropWhile isSpace s)))"

text \<open>
  \<^verbatim>\<open>s.replace(/\s+/g, " ")\<close>: every maximal run of white space becomes one space.
  The flag says whether the previous character belonged to a run already replaced.
\<close>

fun collapseFrom :: "bool \<Rightarrow> string \<Rightarrow> string" where
  "collapseFrom inRun [] = []"
| "collapseFrom inRun (c # cs) =
     (if isSpace c
      then (if inRun then collapseFrom True cs else CHR '' '' # collapseFrom True cs)
      else c # collapseFrom False cs)"

definition collapseWhitespace :: "string \<Rightarrow> string" where
  "collapseWhitespace s = collapseFrom False s"

text \<open>\<^verbatim>\<open>String.prototype.toLowerCase\<close> on code units below 256.\<close>

definition toLowerChar :: "char \<Rightarrow> char" where
  "toLowerChar c =
     (let n = (of_char c :: nat)
      in if (65 \<le> n \<and> n \<le> 90) \<or> (192 \<le> n \<and> n \<le> 222 \<and> n \<noteq> 215)
         then char_of (n + 32) else c)"

definition toLowerCase :: "string \<Rightarrow> string" where
  "toLowerCase s = map toLowerChar s"

definition digitValue :: "char \<Rightarrow> nat" where
  "digitValue c = of_char c - 48"

definition digitsValue :: "string \<Rightarrow> nat" where
  "digitsValue ds = foldl (\<lambda>acc c. 10 * acc + digitValue c) 0 ds"

text \<open>
  \<^verbatim>\<open>Number(s)\<close> for a string over digits, \<open>.\<close> and \<open>-\<close>, which is all its callers
  pass (\<^verbatim>\<open>toNumberLoose\<close> removes every other character first, and the quantity
  token is a run of digits). The empty string is 0; otherwise the string must be
  an optional \<open>-\<close> followed by \<open>digits\<close>, \<open>digits.\<close>, \<open>digits.digits\<close> or
  \<open>.digits\<close>; anything else is NaN.
\<close>

definition decimalLiteral :: "string \<Rightarrow> rat option" where
  "decimalLiteral body =
     (let ip = takeWhile isDigit body; rest = dropWhile isDigit body
      in case rest of
           [] \<Rightarrow> if ip = [] then None else Some (of_nat (digitsValue ip))
         | c # fp \<Rightarrow>
             if c = CHR ''.'' \<and> list_all isDigit fp \<and> (ip \<noteq> [] \<or> fp \<noteq> [])
             then Some (of_nat (digitsValue ip) + of_nat (digitsValue fp) / 10 ^ length fp)
             else None)"

definition Number_str :: "string \<Rightarrow> rat option" where
  "Number_str s =
     (case s of
        [] \<Rightarrow> Some 0
      | c # cs \<Rightarrow>
          if c = CHR ''-'' then map_option uminus (decimalLiteral cs)
          else decimalLiteral (c # cs))"

text \<open>
  \<^verbatim>\<open>String(q)\<close> for a number that is a non-negative integer (the quantity parsed
  from a run of digits): its decimal digits. Exact below \<open>2^53\<close>.
\<close>

fun showNat :: "nat \<Rightarrow> string" where
  "showNat n =
     (if n < 10 then [''0123456789'' ! n]
      else showNat (n div 10) @ [''0123456789'' ! (n mod 10)])"

definition numberToString :: "rat \<Rightarrow> string" where
  "numberToString q = showNat (nat \<lfloor>q\<rfloor>)"

text \<open>
  The double nearest to a rational, ties to even: with \<open>e\<close> the binary exponent
  of \<open>x\<close> (\<open>2^e \<le> |x| < 2^(e+1)\<close>), the doubles around \<open>x\<close> are the multiples of
  \<open>2^(e-52)\<close>.
\<close>

definition pow2 :: "int \<Rightarrow> rat" where
  "pow2 e = (if 0 \<le> e then 2 ^ nat e else 1 / 2 ^ nat (- e))"

definition binaryExponent :: "rat \<Rightarrow> int" where
  "binaryExponent x =
     (let (a, b) = quotient_of \<bar>x\<bar>; k = bitlen a - bitlen b
      in if pow2 k \<le> \<bar>x\<bar> then k else k - 1)"

definition roundHalfEven :: "rat \<Rightarrow> int" where
  "roundHalfEven m =
     (let f = \<lfloor>m\<rfloor>; d = m - of_int f
      in if d < 1 / 2 then f else if 1 / 2 < d then f + 1
         else if even f then f else f + 1)"

definition toDouble :: "rat \<Rightarrow> rat" where
  "toDouble x =
     (if x = 0 then 0
      else let ulp = pow2 (binaryExponent x - 52)
           in of_int (roundHalfEven (x / ulp)) * ulp)"

text \<open>The product \<^verbatim>\<open>x * y\<close> and the quotient \<^verbatim>\<open>x / y\<close> of two numbers.\<close>

definition dmul :: "rat \<Rightarrow> rat \<Rightarrow> rat" where
  "dmul x y = toDouble (toDouble x * toDouble y)"

definition ddiv :: "rat \<Rightarrow> rat \<Rightarrow> rat" where
  "ddiv x y = toDouble (toDouble x / toDouble y)"

text \<open>
  \<^verbatim>\<open>Math.round(x * 100) / 100\<close> for a double \<open>x\<close>: the product is a double,
  \<^verbatim>\<open>Math.round\<close> gives the nearest integer \<open>n\<close>, a half rounded upwards, and the
  result is the double nearest to \<open>n / 100\<close>.
\<close>

definition round2 :: "rat \<Rightarrow> rat" where
  "round2 x = of_int \<lfloor>dmul x 100 + 1 / 2\<rfloor> / 100"

section \<open>Value coercion\<close>

definition toNumberLoose :: "string \<Rightarrow> rat option" where
  "toNumberLoose s = Number_str (filter (\<lambda>c. isDigit c \<or> c = CHR ''.'' \<or> c = CHR ''-'') s)"

section \<open>The heuristic parser of a line item's mention text\<close>

record LineItem =
  description :: "string option"
  quantity :: "rat option"
  unitPrice :: "rat option"
  amount :: "rat option"

text \<open>
  The word boundary \<^verbatim>\<open>\b\<close> in front of a word character, given the character
  before it, and behind a word character, given the rest of the string.
\<close>

definition boundaryBefore :: "char option \<Rightarrow> bool" where
  "boundaryBefore prev = (case prev of None \<Rightarrow> True | Some p \<Rightarrow> \<not> isWordChar p)"

definition boundaryAfter :: "string \<Rightarrow> bool" where
  "boundaryAfter rest = (case rest of [] \<Rightarrow> True | c # _ \<Rightarrow> \<not> isWordChar c)"

text \<open>The characters taken by the greedy \<^verbatim>\<open>(?:,\d{3})*\<close>.\<close>

fun commaGroups :: "string \<Rightarrow> nat" where
  "commaGroups (c # d1 # d2 # d3 # rest) =
     (if c = CHR '','' \<and> isDigit d1 \<and> isDigit d2 \<and> isDigit d3
      then 4 + commaGroups rest else 0)"
| "commaGroups _ = 0"

text \<open>
  An attempt of \<^verbatim>\<open>/\b\d{1,3}(?:,\d{3})*\.\d{2}\b/\<close> at the head of \<open>s\<close>, the
  character before it being \<open>prev\<close>: the length of the match. Backtracking cannot
  find another match at the same place: with fewer digits or fewer groups the
  next character is a digit or a comma, where a comma or the point is needed.
\<close>

definition moneyMatchLen :: "char option \<Rightarrow> string \<Rightarrow> nat option" where
  "moneyMatchLen prev s =
     (let d = length (takeWhile isDigit s)
      in if \<not> boundaryBefore prev \<or> d < 1 \<or> 3 < d then None
         else let g = commaGroups (drop d s)
              in case drop (d + g) s of
                   p # f1 # f2 # rest \<Rightarrow>
                     if p = CHR ''.'' \<and> isDigit f1 \<and> isDigit f2 \<and> boundaryAfter rest
                     then Some (d + g + 3) else None
                 | _ \<Rightarrow> None)"

lemma moneyMatchLen_pos: "moneyMatchLen prev s = Some n \<Longrightarrow> 0 < n"
  by (auto simp: moneyMatchLen_def Let_def split: if_splits list.splits)

text \<open>
  The loop \<^verbatim>\<open>while ((m = moneyRegex.exec(mt)) !== null)\<close>: the matches from left to
  right, each with its text and its index; the search resumes behind a match.
\<close>

function scanMoney :: "char option \<Rightarrow> string \<Rightarrow> nat \<Rightarrow> (string \<times> nat) list" where
  "scanMoney prev [] i = []"
| "scanMoney prev (c # cs) i =
     (case moneyMatchLen prev (c # cs) of
        None \<Rightarrow> scanMoney (Some c) cs (Suc i)
      | Some n \<Rightarrow>
          (take n (c # cs), i)
            # scanMoney (Some (last (take n (c # cs)))) (drop n (c # cs)) (i + n))"
  by pat_completeness auto
termination
  by (relation "measure (\<lambda>(prev, s, i). length s)") (auto dest: moneyMatchLen_pos)

text \<open>\<^verbatim>\<open>[...beforeMoney.matchAll(/\b\d+\b/g)]\<close>: the texts of the matches.\<close>

function scanQty :: "char option \<Rightarrow> string \<Rightarrow> string list" where
  "scanQty prev [] = []"
| "scanQty prev (c # cs) =
     (let run = takeWhile isDigit (c # cs); rest = dropWhile isDigit (c # cs)
      in if run \<noteq> [] \<and> boundaryBefore prev \<and> boundaryAfter rest
         then run # scanQty (Some (last run)) rest
         else scanQty (Some c) cs)"
  by pat_completeness auto
termination
proof (relation "measure (\<lambda>(prev, s). length s)")
  show "wf (measure (\<lambda>(prev, s). length s))" by simp
next
  fix prev :: "char option" and c :: char and cs run rest
  assume run: "run = takeWhile isDigit (c # cs)" and rest: "rest = dropWhile isDigit (c # cs)"
    and ok: "run \<noteq> [] \<and> boundaryBefore prev \<and> boundaryAfter rest"
  from run ok have "isDigit c" by (auto split: if_splits)
  then have "rest = dropWhile isDigit cs" using rest by simp
  then have "length rest \<le> length cs" by (simp add: length_dropWhile_le)
  then show "((Some (last run), rest), (prev, c # cs)) \<in> measure (\<lambda>(prev, s). length s)"
    by simp
next
  fix prev :: "char option" and c :: char and cs run rest
  show "((Some c, cs), (prev, c # cs)) \<in> measure (\<lambda>(prev, s). length s)" by simp
qed

text \<open>
  \<^verbatim>\<open>description.replace(new RegExp(`\\b${quantity}\\b\\s*$`), "")\<close> with the digits
  \<open>tok\<close> of the quantity: the leftmost place where \<open>tok\<close> stands between word
  boundaries and only white space follows up to the end; the string is cut there.
\<close>

definition tokenToEnd :: "string \<Rightarrow> string \<Rightarrow> bool" where
  "tokenToEnd tok s =
     (take (length tok) s = tok \<and> boundaryAfter (drop (length tok) s)
      \<and> list_all isSpace (drop (length tok) s))"

fun stripTrailingToken :: "string \<Rightarrow> char option \<Rightarrow> string \<Rightarrow> string" where
  "stripTrailingToken tok prev [] = []"
| "stripTrailingToken tok prev (c # cs) =
     (if boundaryBefore prev \<and> tokenToEnd tok (c # cs) then []
      else c # stripTrailingToken tok (Some c) cs)"

text \<open>The list \<^verbatim>\<open>moneyMatches\<close>: value and index of every match whose text parses.\<close>

definition moneyMatches :: "string \<Rightarrow> (rat \<times> nat) list" where
  "moneyMatches mt =
     List.map_filter (\<lambda>(raw, start). map_option (\<lambda>v. (v, start)) (toNumberLoose raw))
       (scanMoney None mt 0)"

text \<open>The roles of the money matches: \<open>(unitPrice, amount)\<close>.\<close>

definition moneyRoles :: "(rat \<times> nat) list \<Rightarrow> rat option \<times> rat option" where
  "moneyRoles ms =
     (if 2 \<le> length ms then (Some (fst (ms ! (length ms - 2))), Some (fst (ms ! (length ms - 1))))
      else if length ms = 1 then (None, Some (fst (ms ! 0)))
      else (None, None))"

definition beforeMoney :: "string \<Rightarrow> (rat \<times> nat) list \<Rightarrow> string" where
  "beforeMoney mt ms =
     (let firstMoneyStart = (if 0 < length ms then snd (ms ! 0) else length mt)
      in trim (take firstMoneyStart mt))"

text \<open>The quantity: the last bare integer in front of the money.\<close>

definition lastQuantity :: "string \<Rightarrow> rat option" where
  "lastQuantity bm =
     (let qtyMatches = scanQty None bm
      in if 0 < length qtyMatches then Number_str (qtyMatches ! (length qtyMatches - 1))
         else None)"

definition describe :: "string \<Rightarrow> string \<Rightarrow> rat option \<Rightarrow> string" where
  "describe mt bm q =
     (let d = (case q of None \<Rightarrow> bm
                | Some qv \<Rightarrow> trim (stripTrailingToken (numberToString qv) None bm))
      in if d = [] then mt else d)"

text \<open>
  The two statements that compute a missing field, in their order: from the
  quantity, the unit price and the amount to the unit price and the amount.
\<close>

definition backfill :: "rat option \<Rightarrow> rat option \<Rightarrow> rat option \<Rightarrow> rat option \<times> rat option" where
  "backfill q u a =
     (let a1 = (case (a, q, u) of
                  (None, Some qv, Some uv) \<Rightarrow> Some (round2 (dmul qv uv))
                | _ \<Rightarrow> a);
          u1 = (case (u, q, a1) of
                  (None, Some qv, Some av) \<Rightarrow> if qv \<noteq> 0 then Some (round2 (ddiv av qv)) else u
                | _ \<Rightarrow> u)
      in (u1, a1))"

definition parseLineItemFromMentionText :: "string \<Rightarrow> LineItem" where
  "parseLineItemFromMentionText str =
     (let mt = trim (collapseWhitespace str)
      in if mt = [] then
           \<lparr>description = None, quantity = None, unitPrice = None, amount = None\<rparr>
         else
           let ms = moneyMatches mt;
               (u0, a0) = moneyRoles ms;
               bm = beforeMoney mt ms;
               q = lastQuantity bm;
               d = describe mt bm q;
               (u1, a1) = backfill q u0 a0
           in \<lparr>description = (if d = [] then None else Some d),
               quantity = q, unitPrice = u1, amount = a1\<rparr>)"

section \<open>Entities of the extraction service\<close>

record MoneyValue =
  units :: "int option"
  nanos :: "int option"

record DateValue =
  year :: "int option"
  month :: "int option"
  day :: "int option"

record NormalizedValue =
  nvText :: "string option"
  moneyValue :: "MoneyValue option"
  dateValue :: "DateValue option"

datatype RawEntity =
  RawEntity (etype: "string option") (mentionText: "string option")
    (normalizedValue: "NormalizedValue option") (properties: "RawEntity list option")
    (confidence: "rat option")

text \<open>
  A timestamp is kept symbolically: \<open>FromDate y m d\<close> is
  \<^verbatim>\<open>Timestamp.fromDate(new Date(y, m, d))\<close>, \<open>ServerTime t\<close> is the value the store
  puts for \<^verbatim>\<open>serverTimestamp()\<close> at a write at time \<open>t\<close>.
\<close>

datatype Timestamp = FromDate int int int | ServerTime nat | FromDateString string

text \<open>\<^verbatim>\<open>String(e.type || "").toLowerCase()\<close>.\<close>

definition typeLower :: "RawEntity \<Rightarrow> string" where
  "typeLower e = toLowerCase (case etype e of None \<Rightarrow> [] | Some t \<Rightarrow> t)"

definition pickEntity :: "RawEntity list \<Rightarrow> string list \<Rightarrow> RawEntity option" where
  "pickEntity entities types =
     (let lower = set (map toLowerCase types)
      in find (\<lambda>e. typeLower e \<in> lower) entities)"

definition entityText :: "RawEntity option \<Rightarrow> string option" where
  "entityText eo =
     (case eo of
        None \<Rightarrow> None
      | Some e \<Rightarrow>
          (case (case normalizedValue e of None \<Rightarrow> None | Some nv \<Rightarrow> nvText nv) of
             Some t \<Rightarrow> Some t
           | None \<Rightarrow> mentionText e))"

definition entityMoneyToNumber :: "RawEntity option \<Rightarrow> rat option" where
  "entityMoneyToNumber eo =
     (case eo of
        None \<Rightarrow> None
      | Some e \<Rightarrow>
          let mv = (case normalizedValue e of None \<Rightarrow> None | Some nv \<Rightarrow> moneyValue nv);
              fromText = (case entityText (Some e) of
                            None \<Rightarrow> None
                          | Some t \<Rightarrow> if t = [] then None else toNumberLoose t)
          in case mv of
               None \<Rightarrow> fromText
             | Some m \<Rightarrow>
                 if units m \<noteq> None \<or> nanos m \<noteq> None then
                   Some (of_int (case units m of None \<Rightarrow> 0 | Some n \<Rightarrow> n)
                         + of_int (case nanos m of None \<Rightarrow> 0 | Some n \<Rightarrow> n) / 1000000000)
                 else fromText)"

definition entityDateToTimestamp :: "RawEntity option \<Rightarrow> Timestamp option" where
  "entityDateToTimestamp eo =
     (case eo of
        None \<Rightarrow> None
      | Some e \<Rightarrow>
          (case (case normalizedValue e of None \<Rightarrow> None | Some nv \<Rightarrow> dateValue nv) of
             None \<Rightarrow> None
           | Some dv \<Rightarrow>
               (case (year dv, month dv, day dv) of
                  (Some y, Some m, Some d) \<Rightarrow>
                    if y \<noteq> 0 \<and> m \<noteq> 0 \<and> d \<noteq> 0 then Some (FromDate y (m - 1) d) else None
                | _ \<Rightarrow> None)))"

section \<open>Line items\<close>

definition orElse :: "'a option \<Rightarrow> 'a option \<Rightarrow> 'a option" where
  "orElse a b = (case a of None \<Rightarrow> b | Some v \<Rightarrow> Some v)"

definition parseLineItem :: "RawEntity \<Rightarrow> LineItem" where
  "parseLineItem li =
     (let props = (case properties li of None \<Rightarrow> [] | Some ps \<Rightarrow> ps);
          descriptionProp = entityText (pickEntity props
             [''description'', ''item_description'', ''product_description'', ''name'']);
          quantityText = entityText (pickEntity props [''quantity'', ''qty'']);
          unitPriceProp = entityMoneyToNumber (pickEntity props
             [''unit_price'', ''price'', ''unit_cost'']);
          amountProp = entityMoneyToNumber (pickEntity props
             [''amount'', ''line_item_amount'', ''total_price'']);
          quantityProp = (case quantityText of
                            None \<Rightarrow> None
                          | Some t \<Rightarrow> if t = [] then None else toNumberLoose t);
          item = \<lparr>description = descriptionProp, quantity = quantityProp,
                  unitPrice = unitPriceProp, amount = amountProp\<rparr>;
          mt = (case mentionText li of None \<Rightarrow> [] | Some t \<Rightarrow> t);
          needsFallback =
            (length props = 0 \<or>
             (((description item = None \<or> description item = Some [])
               \<and> quantity item = None \<and> unitPrice item = None \<and> amount item = None)
              \<and> mt \<noteq> []))
      in if needsFallback \<and> mt \<noteq> [] then
           let fb = parseLineItemFromMentionText mt
           in \<lparr>description = orElse (description item) (description fb),
               quantity = orElse (quantity item) (quantity fb),
               unitPrice = orElse (unitPrice item) (unitPrice fb),
               amount = orElse (amount item) (amount fb)\<rparr>
         else item)"

definition parseLineItems :: "RawEntity list \<Rightarrow> LineItem list" where
  "parseLineItems entities =
     map parseLineItem (filter (\<lambda>e. typeLower e = ''line_item'') entities)"

section \<open>The invoice fields\<close>

record InvoiceFields =
  supplierName :: "string option"
  supplierAddress :: "string option"
  invoiceNumber :: "string option"
  purchaseOrderNumber :: "string option"
  invoiceDate :: "Timestamp option"
  dueDate :: "Timestamp option"
  subtotal :: "rat option"
  tax :: "rat option"
  total :: "rat option"
  lineItems :: "LineItem list"

text \<open>
  The header fields and the line items that \<^verbatim>\<open>processInvoiceDocument\<close> computes from
  the entities of the extraction result.
\<close>

definition extractFields :: "RawEntity list \<Rightarrow> InvoiceFields" where
  "extractFields entities =
     \<lparr>supplierName = entityText (pickEntity entities
          [''supplier_name'', ''supplier'', ''vendor_name'', ''vendor'']),
      supplierAddress = entityText (pickEntity entities
          [''supplier_address'', ''vendor_address'', ''address'']),
      invoiceNumber = entityText (pickEntity entities
          [''invoice_id'', ''invoice_number'', ''invoice_no'']),
      purchaseOrderNumber = entityText (pickEntity entities
          [''purchase_order'', ''purchase_order_number'', ''po_number'', ''po'']),
      invoiceDate = entityDateToTimestamp (pickEntity entities [''invoice_date'', ''date'']),
      dueDate = entityDateToTimestamp (pickEntity entities [''due_date'']),
      subtotal = entityMoneyToNumber (pickEntity entities [''subtotal_amount'', ''subtotal'']),
      tax = entityMoneyToNumber (pickEntity entities
          [''total_tax_amount'', ''tax_amount'', ''tax'']),
      total = entityMoneyToNumber (pickEntity entities
          [''total_amount'', ''invoice_total'', ''amount_due'', ''total'']),
      lineItems = parseLineItems entities\<rparr>"

record DebugEntity =
  debugType :: "string option"
  debugMentionText :: "string option"
  normalizedText :: "string option"
  debugConfidence :: "rat option"

definition rawEntitiesOf :: "RawEntity list \<Rightarrow> DebugEntity list" where
  "rawEntitiesOf entities =
     map (\<lambda>e. \<lparr>debugType = etype e, debugMentionText = mentionText e,
               normalizedText = (case normalizedValue e of None \<Rightarrow> None | Some nv \<Rightarrow> nvText nv),
               debugConfidence = confidence e\<rparr>)
       (take 200 entities)"

section \<open>The document store and the services\<close>

text \<open>
  An invoice document of the collection \<^verbatim>\<open>invoices\<close>. The ten extracted fields are
  grouped in \<open>extracted\<close>; the components that no function below reads or writes
  (file name, currency, creation time) are left out.
\<close>

record Invoice =
  userId :: "string option"
  status :: "string option"
  storagePath :: "string option"
  contentType :: "string option"
  skipProcessing :: bool
  errorMessage :: "string option"
  extracted :: InvoiceFields
  rawEntities :: "DebugEntity list"
  updatedAt :: "Timestamp option"
  extractedAt :: "Timestamp option"
  finalizedAt :: "Timestamp option"

text \<open>A thrown \<^verbatim>\<open>Error\<close>: its name and its message.\<close>

datatype JsError = JsError (errorName: string) (message: string)

text \<open>\<^verbatim>\<open>String(err?.message || err)\<close>.\<close>

definition errorString :: "JsError \<Rightarrow> string" where
  "errorString err = (if message err \<noteq> [] then message err else errorName err)"

record DocaiRequest =
  name :: string
  content :: string
  mimeType :: string

text \<open>
  The state that the functions act on: the documents by id, the clock of the
  store, and the calls made so far to object storage and to the extraction service.
\<close>

record World =
  docs :: "string \<Rightarrow> Invoice option"
  clock :: nat
  storageReads :: "string list"
  docaiCalls :: "DocaiRequest list"

text \<open>
  What the services answer: the content type in the metadata of a stored file,
  its bytes, the project id of the environment, and the entities of the
  extraction result (\<^verbatim>\<open>result.document?.entities || []\<close>); each call may throw.
  The entity list is untyped in the source: an element of it that is \<open>null\<close> is
  \<open>None\<close>.
\<close>

record Env =
  getMetadata :: "string \<Rightarrow> JsError + string option"
  download :: "string \<Rightarrow> JsError + string"
  projectId :: "string option"
  processDocument :: "DocaiRequest \<Rightarrow> JsError + RawEntity option list"

definition DOCAI_LOCATION :: string where
  "DOCAI_LOCATION = ''us''"

definition DOCAI_PROCESSOR_ID :: string where
  "DOCAI_PROCESSOR_ID = ''de93e913f38aafe3''"

text \<open>
  An operation yields what it throws, if anything, and the state it leaves.

  \<^verbatim>\<open>docRef.update(patch)\<close>: the named components of the document are replaced, the
  others kept; a server timestamp in the patch is the time of the write. The
  update of a document that does not exist throws and writes nothing.
\<close>

definition update :: "string \<Rightarrow> (Timestamp \<Rightarrow> Invoice \<Rightarrow> Invoice) \<Rightarrow> World \<Rightarrow> JsError option \<times> World" where
  "update ref patch w =
     (case docs w ref of
        None \<Rightarrow> (Some (JsError ''Error'' ''5 NOT_FOUND: No document to update''), w)
      | Some d \<Rightarrow>
          (None, w\<lparr>docs := (docs w)(ref := Some (patch (ServerTime (clock w)) d)),
                   clock := Suc (clock w)\<rparr>))"

section \<open>The processing body\<close>

definition truthy :: "string option \<Rightarrow> bool" where
  "truthy v = (case v of None \<Rightarrow> False | Some s \<Rightarrow> s \<noteq> [])"

text \<open>\<^verbatim>\<open>a || b\<close> for a string \<open>a\<close> that may be missing or empty.\<close>

definition orString :: "string option \<Rightarrow> string \<Rightarrow> string" where
  "orString v dflt = (case v of None \<Rightarrow> dflt | Some s \<Rightarrow> if s = [] then dflt else s)"

text \<open>
  The statements of the \<^verbatim>\<open>try\<close> block up to the extraction result: what they
  yield (the entities, or the error thrown) and the state with the calls recorded.
\<close>

definition fetchAndExtract :: "Env \<Rightarrow> Invoice \<Rightarrow> World \<Rightarrow> (JsError + RawEntity option list) \<times> World" where
  "fetchAndExtract env data w =
     (case storagePath data of
        None \<Rightarrow> (Inl (JsError ''Error'' ''Missing storagePath on invoice document.''), w)
      | Some sp \<Rightarrow>
          if sp = [] then (Inl (JsError ''Error'' ''Missing storagePath on invoice document.''), w)
          else
            let w1 = w\<lparr>storageReads := storageReads w @ [sp]\<rparr>
            in case getMetadata env sp of
                 Inl e \<Rightarrow> (Inl e, w1)
               | Inr metaType \<Rightarrow>
                   let mime = orString (contentType data) (orString metaType ''application/pdf'');
                       w2 = w1\<lparr>storageReads := storageReads w1 @ [sp]\<rparr>
                   in case download env sp of
                        Inl e \<Rightarrow> (Inl e, w2)
                      | Inr buf \<Rightarrow>
                          (case projectId env of
                             None \<Rightarrow> (Inl (JsError ''Error''
                                       ''Missing GCLOUD_PROJECT env var (project id).''), w2)
                           | Some pid \<Rightarrow>
                               if pid = [] then
                                 (Inl (JsError ''Error''
                                    ''Missing GCLOUD_PROJECT env var (project id).''), w2)
                               else if DOCAI_PROCESSOR_ID = [] then
                                 (Inl (JsError ''Error'' ''Missing DOCAI_PROCESSOR_ID''), w2)
                               else
                                 let request =
                                       \<lparr>name = ''projects/'' @ pid @ ''/locations/''
                                          @ DOCAI_LOCATION @ ''/processors/'' @ DOCAI_PROCESSOR_ID,
                                        content = buf, mimeType = mime\<rparr>
                                 in (processDocument env request,
                                     w2\<lparr>docaiCalls := docaiCalls w2 @ [request]\<rparr>)))"

definition startPatch :: "bool \<Rightarrow> Timestamp \<Rightarrow> Invoice \<Rightarrow> Invoice" where
  "startPatch clearError ts d =
     (if clearError
      then d\<lparr>status := Some ''processing'', errorMessage := None, updatedAt := Some ts\<rparr>
      else d\<lparr>status := Some ''processing'', updatedAt := Some ts\<rparr>)"

text \<open>
  The statements of the \<^verbatim>\<open>try\<close> block between the extraction result and the
  update: the header fields, the line items and the debug payload. Each reads
  \<^verbatim>\<open>e.type\<close> of the elements of the list, the picks of the header fields up to
  their first match and the filter of \<^verbatim>\<open>parseLineItems\<close> on every element; on an
  element that is \<open>null\<close> that read throws a \<^verbatim>\<open>TypeError\<close>. So the block throws
  when the list has a \<open>null\<close> element, and yields the fields otherwise.
\<close>

definition nullTypeError :: JsError where
  "nullTypeError =
     JsError ''TypeError''
       (''Cannot read properties of null (reading '' @ [CHR 0x27] @ ''type''
          @ [CHR 0x27] @ '')'')"

definition normalizeEntities :: "RawEntity option list \<Rightarrow> JsError + InvoiceFields \<times> DebugEntity list" where
  "normalizeEntities entities =
     (if None \<in> set entities then Inl nullTypeError
      else let es = List.map_filter (\<lambda>e. e) entities
           in Inr (extractFields es, rawEntitiesOf es))"

definition successPatch :: "InvoiceFields \<Rightarrow> DebugEntity list \<Rightarrow> Timestamp \<Rightarrow> Invoice \<Rightarrow> Invoice" where
  "successPatch flds raw ts d =
     d\<lparr>extracted := flds, rawEntities := raw,
       status := Some ''needs_review'', extractedAt := Some ts, updatedAt := Some ts\<rparr>"

definition errorPatch :: "JsError \<Rightarrow> Timestamp \<Rightarrow> Invoice \<Rightarrow> Invoice" where
  "errorPatch err ts d =
     d\<lparr>status := Some ''error'', errorMessage := Some (errorString err), updatedAt := Some ts\<rparr>"

text \<open>
  \<^verbatim>\<open>processInvoiceDocument(docRef, data, {clearError})\<close>. The first update stands
  outside the \<^verbatim>\<open>try\<close>: its error is the error of the call. Everything thrown inside
  the \<^verbatim>\<open>try\<close>, the update of the result included, is handled by the update of the
  \<^verbatim>\<open>catch\<close> block, whose own error is the error of the call.
\<close>

definition processInvoiceDocument :: "Env \<Rightarrow> string \<Rightarrow> Invoice \<Rightarrow> bool \<Rightarrow> World \<Rightarrow> JsError option \<times> World" where
  "processInvoiceDocument env docRef data clearError w =
     (case update docRef (startPatch clearError) w of
        (Some e, w1) \<Rightarrow> (Some e, w1)
      | (None, w1) \<Rightarrow>
          (case fetchAndExtract env data w1 of
             (Inl err, w2) \<Rightarrow> update docRef (errorPatch err) w2
           | (Inr entities, w2) \<Rightarrow>
               (case normalizeEntities entities of
                  Inl err \<Rightarrow> update docRef (errorPatch err) w2
                | Inr (flds, raw) \<Rightarrow>
                    (case update docRef (successPatch flds raw) w2 of
                       (Some err, w3) \<Rightarrow> update docRef (errorPatch err) w3
                     | (None, w3) \<Rightarrow> (None, w3)))))"

section \<open>The trigger and the callable function\<close>

text \<open>
  The event of a created document: the reference of the document and the data
  of the snapshot; either may be missing.
\<close>

record CreatedEvent =
  snapRef :: string
  snapData :: "Invoice option"

definition processInvoiceOnCreateV2 :: "Env \<Rightarrow> CreatedEvent option \<Rightarrow> World \<Rightarrow> JsError option \<times> World" where
  "processInvoiceOnCreateV2 env event w =
     (case event of
        None \<Rightarrow> (None, w)
      | Some snap \<Rightarrow>
          (case snapData snap of
             None \<Rightarrow> (None, w)
           | Some data \<Rightarrow>
               if status data \<noteq> Some ''uploaded'' \<or> skipProcessing data then (None, w)
               else processInvoiceDocument env (snapRef snap) data True w))"

datatype ErrorCode =
  Unauthenticated | InvalidArgument | NotFound | PermissionDenied | FailedPrecondition

text \<open>
  What a call of the callable function throws: an \<^verbatim>\<open>HttpsError\<close> with its code and
  message, or another error that the function let through.
\<close>

datatype CallError = HttpsError ErrorCode string | Uncaught JsError

record CallRequest =
  authUid :: "string option"
  invoiceIdArg :: "string option"

record OkResult =
  ok :: bool

definition reprocessInvoiceV2 :: "Env \<Rightarrow> CallRequest \<Rightarrow> World \<Rightarrow> (CallError + OkResult) \<times> World" where
  "reprocessInvoiceV2 env request w =
     (if \<not> truthy (authUid request) then
        (Inl (HttpsError Unauthenticated ''Sign in required.''), w)
      else
        let invoiceId = trim (case invoiceIdArg request of None \<Rightarrow> [] | Some i \<Rightarrow> i)
        in if invoiceId = [] then (Inl (HttpsError InvalidArgument ''Missing invoiceId.''), w)
           else
             (case docs w invoiceId of
                None \<Rightarrow> (Inl (HttpsError NotFound ''Invoice not found.''), w)
              | Some data \<Rightarrow>
                  if userId data \<noteq> authUid request then
                    (Inl (HttpsError PermissionDenied ''Not allowed.''), w)
                  else if status data = Some ''finalized'' then
                    (Inl (HttpsError FailedPrecondition
                            ''Finalized invoices cannot be reprocessed.''), w)
                  else if \<not> truthy (storagePath data) then
                    (Inl (HttpsError FailedPrecondition
                            ''No storage file available for reprocessing.''), w)
                  else
                    (case processInvoiceDocument env invoiceId data True w of
                       (Some e, w') \<Rightarrow> (Inl (Uncaught e), w')
                     | (None, w') \<Rightarrow> (Inr \<lparr>ok = True\<rparr>, w'))))"

section \<open>The review page\<close>

text \<open>
  The sources hold the review page twice, in \<^verbatim>\<open>src/unnamed/part_002\<close> and in
  \<^verbatim>\<open>src/app/invoices/[id]/page.tsx\<close>; the two differ in \<^verbatim>\<open>save\<close> by the test of
  \<^verbatim>\<open>isFinalized\<close> only.

  The state of the review page when \<^verbatim>\<open>save\<close> runs: the signed-in user, the id of
  the route, the last snapshot \<open>inv\<close> of the document and the contents of the form.
\<close>

record Page =
  user :: "string option"
  pageInvoiceId :: string
  inv :: "Invoice option"
  formSupplierName :: string
  formSupplierAddress :: string
  formInvoiceNumber :: string
  formPurchaseOrderNumber :: string
  formInvoiceDate :: string
  formDueDate :: string
  formSubtotal :: string
  formTax :: string
  formTotal :: string
  formLineItems :: "LineItem list"

text \<open>
  The two conversions of the browser that the form relies on, as parameters:
  \<open>parseNumber s\<close> is \<^verbatim>\<open>Number(s)\<close> when that is finite, \<open>validDate s\<close> says whether
  \<^verbatim>\<open>new Date(s)\<close> is a valid date.
\<close>

record Browser =
  parseNumber :: "string \<Rightarrow> rat option"
  validDate :: "string \<Rightarrow> bool"

definition numOrNull :: "Browser \<Rightarrow> string \<Rightarrow> rat option" where
  "numOrNull br v = (if v = [] then None else parseNumber br v)"

definition dateInputToTimestamp :: "Browser \<Rightarrow> string \<Rightarrow> Timestamp option" where
  "dateInputToTimestamp br v =
     (if v = [] then None
      else if \<not> validDate br (v @ ''T00:00:00'') then None
      else Some (FromDateString (v @ ''T00:00:00'')))"

definition orNull :: "string \<Rightarrow> string option" where
  "orNull s = (if s = [] then None else Some s)"

definition canEdit :: "Page \<Rightarrow> bool" where
  "canEdit pg =
     (case inv pg of
        None \<Rightarrow> False
      | Some d \<Rightarrow> (case user pg of None \<Rightarrow> False | Some uid \<Rightarrow> userId d = Some uid))"

definition isFinalized :: "Page \<Rightarrow> bool" where
  "isFinalized pg = (case inv pg of None \<Rightarrow> False | Some d \<Rightarrow> status d = Some ''finalized'')"

definition savePatch :: "Browser \<Rightarrow> Page \<Rightarrow> string \<Rightarrow> Timestamp \<Rightarrow> Invoice \<Rightarrow> Invoice" where
  "savePatch br pg newStatus ts d =
     d\<lparr>extracted :=
         \<lparr>supplierName = orNull (formSupplierName pg),
          supplierAddress = orNull (formSupplierAddress pg),
          invoiceNumber = orNull (formInvoiceNumber pg),
          purchaseOrderNumber = orNull (formPurchaseOrderNumber pg),
          invoiceDate = dateInputToTimestamp br (formInvoiceDate pg),
          dueDate = dateInputToTimestamp br (formDueDate pg),
          subtotal = numOrNull br (formSubtotal pg),
          tax = numOrNull br (formTax pg),
          total = numOrNull br (formTotal pg),
          lineItems = formLineItems pg\<rparr>,
       status := Some newStatus,
       updatedAt := Some ts,
       finalizedAt := (if newStatus = ''finalized'' then Some ts else None)\<rparr>"

text \<open>
  \<^verbatim>\<open>save(status)\<close> of the review page in \<^verbatim>\<open>src/unnamed/part_002\<close>, called with
  \<^verbatim>\<open>"needs_review"\<close> or \<^verbatim>\<open>"finalized"\<close>: the effect on the store.
\<close>

definition save :: "Browser \<Rightarrow> Page \<Rightarrow> string \<Rightarrow> World \<Rightarrow> JsError option \<times> World" where
  "save br pg newStatus w =
     (if \<not> canEdit pg \<or> pageInvoiceId pg = [] then (None, w)
      else if isFinalized pg then (None, w)
      else update (pageInvoiceId pg) (savePatch br pg newStatus) w)"

text \<open>
  \<^verbatim>\<open>save(status)\<close> of the review page in \<^verbatim>\<open>src/app/invoices/[id]/page.tsx\<close>
  (lines 159 to 188), whose buttons Save and Finalize are shown for every
  status: the same function without the test of \<^verbatim>\<open>isFinalized\<close>.
\<close>

definition save_invoices_id_page :: "Browser \<Rightarrow> Page \<Rightarrow> string \<Rightarrow> World \<Rightarrow> JsError option \<times> World" where
  "save_invoices_id_page br pg newStatus w =
     (if \<not> canEdit pg \<or> pageInvoiceId pg = [] then (None, w)
      else update (pageInvoiceId pg) (savePatch br pg newStatus) w)"

section \<open>Example states\<close>

text \<open>
  Concrete values on which the theorems below are instantiated: an invoice of
  the user \<open>alice\<close> stored under the id \<open>inv1\<close>, services that answer every call,
  the extraction service answering with \<open>answer\<close>, and a review page showing the
  invoice to its owner.
\<close>

definition noFields :: InvoiceFields where
  "noFields = \<lparr>supplierName = None, supplierAddress = None, invoiceNumber = None,
     purchaseOrderNumber = None, invoiceDate = None, dueDate = None,
     subtotal = None, tax = None, total = None, lineItems = []\<rparr>"

definition exampleInvoice :: "string \<Rightarrow> Invoice" where
  "exampleInvoice st =
     \<lparr>userId = Some ''alice'', status = Some st,
      storagePath = Some ''invoices/alice/1_a.pdf'', contentType = None,
      skipProcessing = False, errorMessage = Some ''earlier failure'',
      extracted = noFields, rawEntities = [], updatedAt = None, extractedAt = None,
      finalizedAt = (if st = ''finalized'' then Some (ServerTime 3) else None)\<rparr>"

definition exampleWorld :: "string \<Rightarrow> World" where
  "exampleWorld st =
     \<lparr>docs = (\<lambda>i. if i = ''inv1'' then Some (exampleInvoice st) else None),
      clock = 5, storageReads = [], docaiCalls = []\<rparr>"

definition exampleEnv :: "(JsError + RawEntity option list) \<Rightarrow> Env" where
  "exampleEnv answer =
     \<lparr>getMetadata = (\<lambda>p. Inr (Some ''application/pdf'')),
      download = (\<lambda>p. Inr ''%PDF''),
      projectId = Some ''demo'',
      processDocument = (\<lambda>r. answer)\<rparr>"

definition exampleRequest :: "string option \<Rightarrow> string option \<Rightarrow> CallRequest" where
  "exampleRequest uid i = \<lparr>authUid = uid, invoiceIdArg = i\<rparr>"

definition examplePage :: "string \<Rightarrow> Page" where
  "examplePage st =
     \<lparr>user = Some ''alice'', pageInvoiceId = ''inv1'', inv = Some (exampleInvoice st),
      formSupplierName = ''Acme'', formSupplierAddress = [], formInvoiceNumber = ''7'',
      formPurchaseOrderNumber = [], formInvoiceDate = [], formDueDate = [],
      formSubtotal = [], formTax = [], formTotal = [], formLineItems = []\<rparr>"

definition exampleBrowser :: Browser where
  "exampleBrowser = \<lparr>parseNumber = toNumberLoose, validDate = (\<lambda>s. True)\<rparr>"

text \<open>
  Entities whose texts are not numbers: a total \<open>n/a\<close>, and a line item with the
  quantity \<open>two\<close> and the amount \<open>N/A\<close>.
\<close>

definition malformedEntities :: "RawEntity list" where
  "malformedEntities =
     [RawEntity (Some ''total_amount'') (Some ''n/a'') None None None,
      RawEntity (Some ''line_item'') (Some ''misc'') None
        (Some [RawEntity (Some ''quantity'') (Some ''two'') None None None,
               RawEntity (Some ''amount'') (Some ''N/A'') None None None])
        None]"

section \<open>Properties of the value coercion\<close>

lemma money_from_structured_value:
  "entityMoneyToNumber (Some (RawEntity None None
      (Some \<lparr>nvText = None, moneyValue = Some \<lparr>units = Some 20, nanos = Some 500000000\<rparr>,
             dateValue = None\<rparr>) None None)) = Some (41 / 2)"
  by code_simp

lemma money_from_text:
  "entityMoneyToNumber (Some (RawEntity (Some ''total_amount'') (Some ''$1,234.56'')
      None None None)) = Some (123456 / 100)"
  by code_simp

lemma toNumberLoose_not_a_number:
  "toNumberLoose ''1.2.3'' = None \<and> toNumberLoose ''5-'' = None \<and> toNumberLoose ''.'' = None"
  by code_simp

text \<open>
  C6. Money coercion returns the units plus a billionth of the nanos when the
  structured money value is there, and otherwise parses the text after removing
  every character but digits, point and minus, null when that is not a finite
  number; the text \<open>n/a\<close> is to give null. The first two examples of the claim
  hold (\<open>money_from_structured_value\<close>, \<open>money_from_text\<close>). For the text \<open>n/a\<close>
  nothing is left after the removal, the empty string converts to the number 0,
  and the function returns 0 where the claim says null.
\<close>

theorem money_text_without_digits:
  "toNumberLoose ''n/a'' = Some 0
   \<and> entityMoneyToNumber (Some (RawEntity (Some ''total_amount'') (Some ''n/a'')
        None None None)) = Some 0"
  by code_simp

theorem money_text_without_digits_witness:
  "entityMoneyToNumber (Some (RawEntity (Some ''total_amount'') (Some ''n/a'')
      None None None)) \<noteq> None"
  using money_text_without_digits by simp

text \<open>
  C10. When the structured money value has only one of its two components, the
  missing one counts as 0: nanos alone give a billionth of the nanos (0.5 for
  500000000), units alone give the units (7 for 7). The text of the entity is
  not consulted: the result is the same for every mention text \<open>mt\<close> and every
  normalized text \<open>t\<close>.
\<close>

theorem money_one_component:
  "entityMoneyToNumber (Some (RawEntity ty mt
      (Some \<lparr>nvText = t, moneyValue = Some \<lparr>units = None, nanos = Some n\<rparr>, dateValue = dv\<rparr>)
      ps cf)) = Some (of_int n / 1000000000)
   \<and> entityMoneyToNumber (Some (RawEntity ty mt
      (Some \<lparr>nvText = t, moneyValue = Some \<lparr>units = Some u, nanos = None\<rparr>, dateValue = dv\<rparr>)
      ps cf)) = Some (of_int u)"
  by (simp add: entityMoneyToNumber_def)

theorem money_one_component_witness:
  "entityMoneyToNumber (Some (RawEntity (Some ''total_amount'') (Some ''$99.00'')
      (Some \<lparr>nvText = Some ''12.00'',
             moneyValue = Some \<lparr>units = None, nanos = Some 500000000\<rparr>, dateValue = None\<rparr>)
      None None)) = Some (1 / 2)
   \<and> entityMoneyToNumber (Some (RawEntity (Some ''total_amount'') (Some ''$99.00'')
      (Some \<lparr>nvText = Some ''12.00'',
             moneyValue = Some \<lparr>units = Some 7, nanos = None\<rparr>, dateValue = None\<rparr>)
      None None)) = Some 7"
  using money_one_component [of "Some ''total_amount''" "Some ''$99.00''" "Some ''12.00''"
      500000000 None None None 7]
  by simp

section \<open>Properties of the heuristic parser\<close>

lemma space_not_word: "isSpace c \<Longrightarrow> \<not> isWordChar c"
  by (auto simp: isSpace_def isWordChar_def)

lemma spaces_boundaryAfter: "list_all isSpace ws \<Longrightarrow> boundaryAfter ws"
  by (cases ws) (auto simp: boundaryAfter_def space_not_word)

lemma digit_char: "k < 10 \<Longrightarrow> isDigit (''0123456789'' ! k)"
proof -
  assume "k < 10"
  then have "k \<in> {0, 1, 2, 3, 4, 5, 6, 7, 8, 9}" by auto
  then show ?thesis by (auto simp: isDigit_def)
qed

lemma digit_not_space: "isDigit c \<Longrightarrow> \<not> isSpace c"
  by (auto simp: isDigit_def isSpace_def)

lemma showNat_nonempty: "showNat n \<noteq> []"
  by (subst showNat.simps) simp

lemma showNat_last: "isDigit (last (showNat n))"
  by (subst showNat.simps) (simp add: digit_char)

lemma no_match_inside:
  assumes tok: "tok \<noteq> []" and sp: "\<not> isSpace (last tok)"
  shows "\<not> tokenToEnd tok (c # pre @ tok @ ws)"
proof
  assume m: "tokenToEnd tok (c # pre @ tok @ ws)"
  have len: "length tok < length ((c # pre) @ tok)" by simp
  have gen: "drop n (xs @ ws) = drop n xs @ ws" if "n \<le> length xs" for n and xs :: string
    using that by simp
  have "drop (length tok) (((c # pre) @ tok) @ ws) = drop (length tok) ((c # pre) @ tok) @ ws"
    by (rule gen) simp
  then have "drop (length tok) (c # pre @ tok @ ws) = drop (length tok) ((c # pre) @ tok) @ ws"
    by simp
  moreover have "drop (length tok) ((c # pre) @ tok) \<noteq> []" using len by simp
  moreover have "last (drop (length tok) ((c # pre) @ tok)) = last tok"
    using len tok by (simp add: last_drop)
  ultimately have "last tok \<in> set (drop (length tok) (c # pre @ tok @ ws))"
    by (metis Un_iff last_in_set set_append)
  with m sp show False by (auto simp: tokenToEnd_def list_all_iff)
qed

lemma strip_match:
  assumes "tok \<noteq> []" and "\<not> isSpace (last tok)" and "list_all isSpace ws"
    and "boundaryBefore (if pre = [] then prev else Some (last pre))"
  shows "stripTrailingToken tok prev (pre @ tok @ ws) = pre"
  using assms(4)
proof (induction pre arbitrary: prev)
  case Nil
  then have "tokenToEnd tok (tok @ ws)"
    using assms(3) by (simp add: tokenToEnd_def spaces_boundaryAfter)
  with Nil assms(1) show ?case by (cases "tok @ ws") auto
next
  case (Cons c pre)
  have "boundaryBefore (if pre = [] then Some c else Some (last pre))"
    using Cons.prems by (cases pre) auto
  from Cons.IH [OF this] no_match_inside [OF assms(1,2), of c pre ws]
  show ?case by simp
qed

lemma strip_cases:
  "stripTrailingToken tok prev s = s \<or>
   (\<exists>pre ws. s = pre @ tok @ ws \<and> stripTrailingToken tok prev s = pre
      \<and> list_all isSpace ws \<and> boundaryBefore (if pre = [] then prev else Some (last pre)))"
proof (induction s arbitrary: prev)
  case Nil
  then show ?case by simp
next
  case (Cons c cs)
  show ?case
  proof (cases "boundaryBefore prev \<and> tokenToEnd tok (c # cs)")
    case True
    then have "c # cs = [] @ tok @ drop (length tok) (c # cs)"
      by (metis append_Nil append_take_drop_id tokenToEnd_def)
    with True show ?thesis
      by (auto simp: tokenToEnd_def intro!: exI[of _ "[]"] exI[of _ "drop (length tok) (c # cs)"])
  next
    case False
    from Cons.IH [of "Some c"] show ?thesis
    proof
      assume "stripTrailingToken tok (Some c) cs = cs"
      with False show ?thesis by auto
    next
      assume "\<exists>pre ws. cs = pre @ tok @ ws \<and> stripTrailingToken tok (Some c) cs = pre
         \<and> list_all isSpace ws \<and> boundaryBefore (if pre = [] then Some c else Some (last pre))"
      then obtain pre ws where h: "cs = pre @ tok @ ws" "stripTrailingToken tok (Some c) cs = pre"
         "list_all isSpace ws" "boundaryBefore (if pre = [] then Some c else Some (last pre))"
        by blast
      have "c # cs = (c # pre) @ tok @ ws" using h(1) by simp
      moreover have "stripTrailingToken tok prev (c # cs) = c # pre" using False h(2) by auto
      moreover have "boundaryBefore (if c # pre = [] then prev else Some (last (c # pre)))"
        using h(4) by (cases pre) auto
      ultimately show ?thesis using h(3) by blast
    qed
  qed
qed

lemma numberToString_token:
  "numberToString qv \<noteq> [] \<and> \<not> isSpace (last (numberToString qv))"
  using showNat_nonempty showNat_last digit_not_space unfolding numberToString_def by blast

text \<open>
  The quantity and the description of the result, for an input that is not
  blank, from the text \<open>bm\<close> in front of the first money match.
\<close>

lemma parse_description:
  assumes "mt = trim (collapseWhitespace inp)" and "mt \<noteq> []" and "ms = moneyMatches mt"
    and "bm = trim (take (if ms = [] then length mt else snd (hd ms)) mt)"
  shows "quantity (parseLineItemFromMentionText inp) = lastQuantity bm
       \<and> description (parseLineItemFromMentionText inp)
           = Some (describe mt bm (lastQuantity bm))"
proof -
  have bm: "beforeMoney mt ms = bm"
    using assms(4) by (cases ms) (simp_all add: beforeMoney_def)
  have ne: "describe mt bm q \<noteq> []" for q
    using assms(2) by (simp add: describe_def Let_def)
  show ?thesis
    using assms(1,2,3) bm ne
    by (simp add: parseLineItemFromMentionText_def Let_def case_prod_beta)
qed

text \<open>
  C5. The claim gives \<open>Widget A\<close> as the description for the input
  \<open>2 Widget A 10.00 20.00\<close>. The parser strips the quantity from the text in front
  of the money only where it is the trailing token; here the quantity 2 leads the
  text and stays in the description.
\<close>

theorem leading_quantity_counterexample:
  "parseLineItemFromMentionText ''2 Widget A 10.00 20.00'' \<noteq>
     \<lparr>description = Some ''Widget A'', quantity = Some 2,
      unitPrice = Some 10, amount = Some 20\<rparr>"
  by code_simp

text \<open>
  C5, amended. Let the input not be blank, \<open>mt\<close> the input with its white space
  collapsed and trimmed, \<open>bm\<close> the text of \<open>mt\<close> in front of the first money match
  (all of \<open>mt\<close> without a match), trimmed, and \<open>r\<close> the result.
  \<^item> Without a quantity the description is \<open>bm\<close>.
  \<^item> With the quantity \<open>qv\<close>: when \<open>bm\<close> ends with the digits of \<open>qv\<close> as a
    standalone token (\<open>bm\<close> is \<open>pre\<close>, the digits, white space; \<open>pre\<close> is empty or
    ends with a character that is not a word character), the description is
    \<open>pre\<close>, trimmed; when \<open>bm\<close> does not end so, the description is \<open>bm\<close>.
  \<^item> Where that gives the empty string the description is \<open>mt\<close>.
  So \<open>2 Widget A 10.00 20.00\<close> gives the description \<open>2 Widget A\<close> with quantity 2,
  unit price 10 and amount 20; \<open>Widget A 2 10.00 20.00\<close> gives \<open>Widget A\<close>; and
  \<open>5 Model X15 10.00 50.00\<close> keeps \<open>5 Model X15\<close>, the 5 at its end being part of
  another token.
\<close>

theorem description_strips_trailing_quantity:
  assumes "mt = trim (collapseWhitespace inp)" and "mt \<noteq> []" and "ms = moneyMatches mt"
    and "bm = trim (take (if ms = [] then length mt else snd (hd ms)) mt)"
    and "r = parseLineItemFromMentionText inp"
  shows "(quantity r = None \<longrightarrow> description r = Some (if bm = [] then mt else bm))
     \<and> (quantity r = Some qv \<and> bm = pre @ numberToString qv @ ws \<and> list_all isSpace ws
          \<and> (pre = [] \<or> \<not> isWordChar (last pre))
        \<longrightarrow> description r = Some (if trim pre = [] then mt else trim pre))
     \<and> (quantity r = Some qv
          \<and> \<not> (\<exists>pre ws. bm = pre @ numberToString qv @ ws \<and> list_all isSpace ws
                   \<and> (pre = [] \<or> \<not> isWordChar (last pre)))
        \<longrightarrow> description r = Some (if trim bm = [] then mt else trim bm))
     \<and> parseLineItemFromMentionText ''2 Widget A 10.00 20.00'' =
         \<lparr>description = Some ''2 Widget A'', quantity = Some 2,
          unitPrice = Some 10, amount = Some 20\<rparr>
     \<and> parseLineItemFromMentionText ''Widget A 2 10.00 20.00'' =
         \<lparr>description = Some ''Widget A'', quantity = Some 2,
          unitPrice = Some 10, amount = Some 20\<rparr>
     \<and> parseLineItemFromMentionText ''5 Model X15 10.00 50.00'' =
         \<lparr>description = Some ''5 Model X15'', quantity = Some 5,
          unitPrice = Some 10, amount = Some 50\<rparr>"
proof -
  have q: "quantity r = lastQuantity bm"
    and d: "description r = Some (describe mt bm (lastQuantity bm))"
    using parse_description [OF assms(1-4)] assms(5) by simp_all
  have none: "quantity r = None \<longrightarrow> description r = Some (if bm = [] then mt else bm)"
  proof
    assume "quantity r = None"
    with q have lq: "lastQuantity bm = None" by simp
    have "describe mt bm None = (if bm = [] then mt else bm)"
      unfolding describe_def Let_def by simp
    with d lq show "description r = Some (if bm = [] then mt else bm)" by simp
  qed
  have bnd: "boundaryBefore (if p = [] then None else Some (last p))
               = (p = [] \<or> \<not> isWordChar (last p))" for p
    by (simp add: boundaryBefore_def)
  have cut: "quantity r = Some qv \<and> bm = pre @ numberToString qv @ ws \<and> list_all isSpace ws
          \<and> (pre = [] \<or> \<not> isWordChar (last pre))
        \<longrightarrow> description r = Some (if trim pre = [] then mt else trim pre)"
  proof
    assume h: "quantity r = Some qv \<and> bm = pre @ numberToString qv @ ws \<and> list_all isSpace ws
          \<and> (pre = [] \<or> \<not> isWordChar (last pre))"
    then have "boundaryBefore (if pre = [] then None else Some (last pre))"
      using bnd [of pre] by simp
    with h numberToString_token [of qv]
    have "stripTrailingToken (numberToString qv) None (pre @ numberToString qv @ ws) = pre"
      using strip_match [of "numberToString qv" ws pre None] by blast
    with h have st: "stripTrailingToken (numberToString qv) None bm = pre" by simp
    from h have "quantity r = Some qv" by blast
    then have lq: "lastQuantity bm = Some qv" by (rule trans [OF q [symmetric]])
    have "describe mt bm (Some qv) = (if trim pre = [] then mt else trim pre)"
      unfolding describe_def Let_def using st by simp
    with d lq show "description r = Some (if trim pre = [] then mt else trim pre)"
      by simp
  qed
  have keep: "quantity r = Some qv
          \<and> \<not> (\<exists>pre ws. bm = pre @ numberToString qv @ ws \<and> list_all isSpace ws
                   \<and> (pre = [] \<or> \<not> isWordChar (last pre)))
        \<longrightarrow> description r = Some (if trim bm = [] then mt else trim bm)"
  proof
    assume h: "quantity r = Some qv
          \<and> \<not> (\<exists>pre ws. bm = pre @ numberToString qv @ ws \<and> list_all isSpace ws
                   \<and> (pre = [] \<or> \<not> isWordChar (last pre)))"
    from strip_cases [of "numberToString qv" None bm] h bnd
    have st: "stripTrailingToken (numberToString qv) None bm = bm" by blast
    from h have "quantity r = Some qv" by blast
    then have lq: "lastQuantity bm = Some qv" by (rule trans [OF q [symmetric]])
    have "describe mt bm (Some qv) = (if trim bm = [] then mt else trim bm)"
      unfolding describe_def Let_def using st by simp
    with d lq show "description r = Some (if trim bm = [] then mt else trim bm)"
      by simp
  qed
  have a: "parseLineItemFromMentionText ''2 Widget A 10.00 20.00'' =
         \<lparr>description = Some ''2 Widget A'', quantity = Some 2,
          unitPrice = Some 10, amount = Some 20\<rparr>"
    by code_simp
  have b: "parseLineItemFromMentionText ''Widget A 2 10.00 20.00'' =
         \<lparr>description = Some ''Widget A'', quantity = Some 2,
          unitPrice = Some 10, amount = Some 20\<rparr>"
    by code_simp
  have c: "parseLineItemFromMentionText ''5 Model X15 10.00 50.00'' =
         \<lparr>description = Some ''5 Model X15'', quantity = Some 5,
          unitPrice = Some 10, amount = Some 50\<rparr>"
    by code_simp
  from none cut keep a b c show ?thesis by blast
qed

lemma trailing_example_parts:
  "trim (collapseWhitespace ''Widget A 2 10.00 20.00'') = ''Widget A 2 10.00 20.00''
   \<and> moneyMatches ''Widget A 2 10.00 20.00'' = [(10, 11), (20, 17)]
   \<and> trim (take 11 ''Widget A 2 10.00 20.00'') = ''Widget A 2''
   \<and> quantity (parseLineItemFromMentionText ''Widget A 2 10.00 20.00'') = Some 2
   \<and> ''Widget A 2'' = ''Widget A '' @ numberToString 2 @ []
   \<and> trim ''Widget A '' = ''Widget A''
   \<and> \<not> isWordChar (last ''Widget A '')"
  by code_simp

theorem description_strips_trailing_quantity_witness:
  "description (parseLineItemFromMentionText ''Widget A 2 10.00 20.00'') = Some ''Widget A''"
proof -
  have mt: "''Widget A 2 10.00 20.00'' = trim (collapseWhitespace ''Widget A 2 10.00 20.00'')"
    using trailing_example_parts by simp
  have ne: "''Widget A 2 10.00 20.00'' \<noteq> []" by simp
  have ms: "[(10 :: rat, 11 :: nat), (20, 17)] = moneyMatches ''Widget A 2 10.00 20.00''"
    using trailing_example_parts by simp
  have bm: "''Widget A 2'' =
      trim (take (if [(10 :: rat, 11 :: nat), (20, 17)] = [] then length ''Widget A 2 10.00 20.00''
                  else snd (hd [(10 :: rat, 11 :: nat), (20, 17)])) ''Widget A 2 10.00 20.00'')"
    using trailing_example_parts by simp
  have cond: "quantity (parseLineItemFromMentionText ''Widget A 2 10.00 20.00'') = Some 2
     \<and> ''Widget A 2'' = ''Widget A '' @ numberToString 2 @ []
     \<and> list_all isSpace []
     \<and> (''Widget A '' = [] \<or> \<not> isWordChar (last ''Widget A ''))"
    using trailing_example_parts by simp
  from description_strips_trailing_quantity [OF mt ne ms bm refl,
      where qv = 2 and pre = "''Widget A ''" and ws = "[]"] cond
  have "description (parseLineItemFromMentionText ''Widget A 2 10.00 20.00'')
      = Some (if trim ''Widget A '' = [] then ''Widget A 2 10.00 20.00'' else trim ''Widget A '')"
    by blast
  then show ?thesis using trailing_example_parts by simp
qed

lemma moneyMatches_Nil: "moneyMatches [] = []"
  by (simp add: moneyMatches_def map_filter_simps)

text \<open>
  The unit price and the amount of the result are the roles of the money
  matches, completed by \<open>backfill\<close> with the quantity of the result.
\<close>

lemma parse_uses_backfill:
  "(unitPrice (parseLineItemFromMentionText inp), amount (parseLineItemFromMentionText inp)) =
     backfill (quantity (parseLineItemFromMentionText inp))
       (fst (moneyRoles (moneyMatches (trim (collapseWhitespace inp)))))
       (snd (moneyRoles (moneyMatches (trim (collapseWhitespace inp)))))"
proof (cases "trim (collapseWhitespace inp) = []")
  case True
  then show ?thesis
    by (simp add: parseLineItemFromMentionText_def moneyMatches_Nil moneyRoles_def backfill_def)
next
  case False
  then show ?thesis
    by (simp add: parseLineItemFromMentionText_def Let_def case_prod_beta)
qed

lemma moneyMatches_two:
  "moneyMatches (trim (collapseWhitespace ''2 Widget A 10.00 20.00'')) = [(10, 11), (20, 17)]"
  by code_simp

lemma moneyMatches_one:
  "moneyMatches (trim (collapseWhitespace ''3 Widgets 30.00'')) = [(30, 10)]"
  by code_simp

lemma moneyMatches_none:
  "moneyMatches (trim (collapseWhitespace ''Deposit 5 units'')) = []"
  by code_simp

text \<open>
  C7. With \<open>ms\<close> the money matches of the normalised input, in their order: when
  there are at least two, the unit price of the result is the value of the
  second-to-last and the amount the value of the last; when there is exactly
  one, it is the amount and no match is given the role of the unit price (the
  unit price of the result is then null unless a non-zero quantity lets the
  backfill derive it); when there is none, unit price and amount are null. The
  input \<open>Shipping fee 15.00\<close> gives the description \<open>Shipping fee\<close>, no quantity,
  no unit price and the amount 15.
\<close>

theorem money_roles:
  "(let ms = moneyMatches (trim (collapseWhitespace inp));
        r = parseLineItemFromMentionText inp
    in (2 \<le> length ms \<longrightarrow>
          unitPrice r = Some (fst (ms ! (length ms - 2)))
          \<and> amount r = Some (fst (ms ! (length ms - 1))))
     \<and> (length ms = 1 \<longrightarrow>
          amount r = Some (fst (ms ! 0)) \<and> fst (moneyRoles ms) = None
          \<and> (quantity r = None \<or> quantity r = Some 0 \<longrightarrow> unitPrice r = None))
     \<and> (length ms = 0 \<longrightarrow> unitPrice r = None \<and> amount r = None))
   \<and> parseLineItemFromMentionText ''Shipping fee 15.00'' =
       \<lparr>description = Some ''Shipping fee'', quantity = None,
        unitPrice = None, amount = Some 15\<rparr>"
proof -
  define ms where "ms = moneyMatches (trim (collapseWhitespace inp))"
  define r where "r = parseLineItemFromMentionText inp"
  have bf: "(unitPrice r, amount r) =
      backfill (quantity r) (fst (moneyRoles ms)) (snd (moneyRoles ms))"
    using parse_uses_backfill [of inp] by (simp add: ms_def r_def)
  have two: "2 \<le> length ms \<Longrightarrow> unitPrice r = Some (fst (ms ! (length ms - 2)))
          \<and> amount r = Some (fst (ms ! (length ms - 1)))"
    using bf by (simp add: moneyRoles_def backfill_def Let_def)
  have one: "length ms = 1 \<Longrightarrow> amount r = Some (fst (ms ! 0)) \<and> fst (moneyRoles ms) = None
          \<and> (quantity r = None \<or> quantity r = Some 0 \<longrightarrow> unitPrice r = None)"
    using bf by (auto simp: moneyRoles_def backfill_def Let_def split: option.splits)
  have zero: "length ms = 0 \<Longrightarrow> unitPrice r = None \<and> amount r = None"
    using bf by (auto simp: moneyRoles_def backfill_def Let_def split: option.splits)
  have ex: "parseLineItemFromMentionText ''Shipping fee 15.00'' =
       \<lparr>description = Some ''Shipping fee'', quantity = None,
        unitPrice = None, amount = Some 15\<rparr>"
    by code_simp
  from two one zero ex show ?thesis
    unfolding Let_def ms_def [symmetric] r_def [symmetric] by blast
qed

theorem money_roles_witness:
  "unitPrice (parseLineItemFromMentionText ''2 Widget A 10.00 20.00'') = Some 10
   \<and> amount (parseLineItemFromMentionText ''2 Widget A 10.00 20.00'') = Some 20
   \<and> amount (parseLineItemFromMentionText ''3 Widgets 30.00'') = Some 30
   \<and> unitPrice (parseLineItemFromMentionText ''Deposit 5 units'') = None
   \<and> amount (parseLineItemFromMentionText ''Deposit 5 units'') = None"
  using money_roles [of "''2 Widget A 10.00 20.00''"] money_roles [of "''3 Widgets 30.00''"]
    money_roles [of "''Deposit 5 units''"]
  by (simp add: Let_def moneyMatches_two moneyMatches_one moneyMatches_none)

lemma backfill_product: "backfill (Some 3) (Some 4) None = (Some 4, Some 12)"
  by code_simp

lemma backfill_zero_quantity: "backfill (Some 0) None (Some 15) = (None, Some 15)"
  by code_simp

lemma backfill_quotient: "backfill (Some 3) None (Some 10) = (Some (333 / 100), Some 10)"
  by code_simp

text \<open>
  The quotient of the doubles 1.15 and 2 is just below 0.575, and a hundred
  times it is the double just below 57.5: the unit price is 0.57.
\<close>

lemma backfill_half_cent:
  "backfill (Some 2) None (Some (115 / 100)) = (Some (57 / 100), Some (115 / 100))"
  by code_simp

lemma parse_zero_quantity:
  "parseLineItemFromMentionText ''0 Widgets 30.00'' =
     \<lparr>description = Some ''0 Widgets'', quantity = Some 0, unitPrice = None, amount = Some 30\<rparr>"
  by code_simp

lemma parse_half_cent:
  "parseLineItemFromMentionText ''Widget 2 1.15'' =
     \<lparr>description = Some ''Widget'', quantity = Some 2,
      unitPrice = Some (57 / 100), amount = Some (115 / 100)\<rparr>"
  by code_simp

lemma round2_cents:
  "\<exists>n :: int. round2 x = of_int n / 100 \<and> \<bar>of_int n - dmul x 100\<bar> \<le> 1 / 2"
proof -
  define n where "n = \<lfloor>dmul x 100 + 1 / 2\<rfloor>"
  have "of_int n \<le> dmul x 100 + 1 / 2" and "dmul x 100 + 1 / 2 < of_int n + 1"
    unfolding n_def by linarith+
  then have "\<bar>of_int n - dmul x 100\<bar> \<le> 1 / 2" by linarith
  then show ?thesis unfolding round2_def n_def by blast
qed

text \<open>
  C8. For the backfill from quantity \<open>q\<close>, unit price \<open>u\<close> and amount \<open>a\<close> to the
  unit price \<open>u'\<close> and the amount \<open>a'\<close>: a value that is there is kept; the amount
  changes only when it was null and quantity and unit price are known, and is
  then \<^verbatim>\<open>Math.round(quantity * unitPrice * 100) / 100\<close>; the unit price changes
  only when it was null, amount and quantity are known and the quantity is not
  zero, and is then \<^verbatim>\<open>Math.round((amount / quantity) * 100) / 100\<close>; with the
  quantity zero the unit price stays as it was. The rounding gives a whole
  number of hundredths, at most half a hundredth from the hundredfold that the
  program computes. Quantity 3 and unit price 4 give the amount 12; quantity 0
  and amount 15 leave the unit price null; quantity 3 and amount 10 give the
  unit price 3.33; quantity 2 and amount 1.15 give the unit price 0.57, as the
  parser does on \<open>Widget 2 1.15\<close>.
\<close>

theorem backfill_safe:
  "backfill q u a = (u', a') \<Longrightarrow>
     (a \<noteq> None \<longrightarrow> a' = a) \<and> (u \<noteq> None \<longrightarrow> u' = u)
   \<and> (a' \<noteq> a \<longrightarrow> a = None
        \<and> (\<exists>qv uv. q = Some qv \<and> u = Some uv \<and> a' = Some (round2 (dmul qv uv))))
   \<and> (a = None \<and> q = Some qv \<and> u = Some uv \<longrightarrow> a' = Some (round2 (dmul qv uv)))
   \<and> (u' \<noteq> u \<longrightarrow> u = None \<and>
        (\<exists>qv av. q = Some qv \<and> qv \<noteq> 0 \<and> a = Some av \<and> u' = Some (round2 (ddiv av qv))))
   \<and> (u = None \<and> q = Some qw \<and> qw \<noteq> 0 \<and> a = Some av \<longrightarrow> u' = Some (round2 (ddiv av qw)))
   \<and> (q = Some 0 \<longrightarrow> u' = u)
   \<and> (\<exists>n :: int. round2 x = of_int n / 100 \<and> \<bar>of_int n - dmul x 100\<bar> \<le> 1 / 2)
   \<and> backfill (Some 3) (Some 4) None = (Some 4, Some 12)
   \<and> backfill (Some 0) None (Some 15) = (None, Some 15)
   \<and> backfill (Some 3) None (Some 10) = (Some (333 / 100), Some 10)
   \<and> backfill (Some 2) None (Some (115 / 100)) = (Some (57 / 100), Some (115 / 100))
   \<and> parseLineItemFromMentionText ''Widget 2 1.15'' =
       \<lparr>description = Some ''Widget'', quantity = Some 2,
        unitPrice = Some (57 / 100), amount = Some (115 / 100)\<rparr>"
proof -
  assume h: "backfill q u a = (u', a')"
  have general: "(a \<noteq> None \<longrightarrow> a' = a) \<and> (u \<noteq> None \<longrightarrow> u' = u)
   \<and> (a' \<noteq> a \<longrightarrow> a = None
        \<and> (\<exists>qv uv. q = Some qv \<and> u = Some uv \<and> a' = Some (round2 (dmul qv uv))))
   \<and> (a = None \<and> q = Some qv \<and> u = Some uv \<longrightarrow> a' = Some (round2 (dmul qv uv)))
   \<and> (u' \<noteq> u \<longrightarrow> u = None \<and>
        (\<exists>qv av. q = Some qv \<and> qv \<noteq> 0 \<and> a = Some av \<and> u' = Some (round2 (ddiv av qv))))
   \<and> (u = None \<and> q = Some qw \<and> qw \<noteq> 0 \<and> a = Some av \<longrightarrow> u' = Some (round2 (ddiv av qw)))
   \<and> (q = Some 0 \<longrightarrow> u' = u)"
    using h by (auto simp: backfill_def Let_def split: option.splits if_splits)
  from general round2_cents [of x] backfill_product backfill_zero_quantity backfill_quotient
    backfill_half_cent parse_half_cent
  show ?thesis by blast
qed

theorem backfill_safe_witness:
  "round2 (dmul 3 4) = 12 \<and> round2 (ddiv (115 / 100) 2) = 57 / 100
   \<and> backfill (Some 0) None (Some 15) = (None, Some 15)"
proof -
  have "(None :: rat option) = None \<and> Some (3 :: rat) = Some 3 \<and> Some (4 :: rat) = Some 4
      \<longrightarrow> Some (12 :: rat) = Some (round2 (dmul 3 4))"
    using backfill_safe [OF backfill_product, where qv = 3 and uv = 4] by blast
  then have r1: "round2 (dmul 3 4) = 12" by simp
  have "(None :: rat option) = None \<and> Some (2 :: rat) = Some 2 \<and> (2 :: rat) \<noteq> 0
        \<and> Some (115 / 100 :: rat) = Some (115 / 100)
      \<longrightarrow> Some (57 / 100 :: rat) = Some (round2 (ddiv (115 / 100) 2))"
    using backfill_safe [OF backfill_half_cent, where qw = 2 and av = "115 / 100"] by blast
  then have r2: "round2 (ddiv (115 / 100) 2) = 57 / 100" by simp
  have r3: "backfill (Some 0) None (Some 15) = (None, Some 15)"
    using backfill_safe [OF backfill_zero_quantity] by blast
  from r1 r2 r3 show ?thesis by blast
qed

section \<open>Properties of the normalisation of an entity list\<close>

lemma extractFields_Nil: "extractFields [] = noFields"
  by (simp add: extractFields_def noFields_def pickEntity_def entityText_def
      entityDateToTimestamp_def entityMoneyToNumber_def parseLineItems_def)

text \<open>
  C9. The normalisation of an entity list is to raise no exception and to
  give null for the field of a missing or malformed entity. Missing entities
  give null (\<open>extractFields_Nil\<close>). A money or quantity text without any digit is
  malformed and gives 0, not null: the total \<open>n/a\<close> becomes 0, and the line item
  with the quantity \<open>two\<close> and the amount \<open>N/A\<close> gets the quantity 0 and the
  amount 0.
\<close>

theorem malformed_money_is_zero:
  "total (extractFields malformedEntities) = Some 0
   \<and> lineItems (extractFields malformedEntities) =
       [\<lparr>description = None, quantity = Some 0, unitPrice = None, amount = Some 0\<rparr>]"
  by code_simp

theorem malformed_money_is_zero_witness:
  "total (extractFields malformedEntities) \<noteq> None
   \<and> map quantity (lineItems (extractFields malformedEntities)) = [Some 0]"
  using malformed_money_is_zero by simp

section \<open>Properties of the lifecycle\<close>

lemma update_found:
  "docs w j = Some d \<Longrightarrow>
   update j p w = (None, w\<lparr>docs := (docs w)(j := Some (p (ServerTime (clock w)) d)),
                            clock := Suc (clock w)\<rparr>)"
  by (simp add: update_def)

lemma update_other: "i \<noteq> j \<Longrightarrow> docs (snd (update j p w)) i = docs w i"
  by (simp add: update_def split: option.splits)

lemma fetchAndExtract_docs:
  "docs (snd (fetchAndExtract env data w)) = docs w
   \<and> clock (snd (fetchAndExtract env data w)) = clock w"
  by (simp add: fetchAndExtract_def Let_def split: option.splits sum.splits)

text \<open>What the fetch and the extraction yield does not depend on the state.\<close>

lemma fetchAndExtract_result:
  "fst (fetchAndExtract env data w) = fst (fetchAndExtract env data w0)"
  by (simp add: fetchAndExtract_def Let_def split: option.splits sum.splits)

text \<open>
  What the fetch and the extraction yield, in terms of the answers of the
  services: a missing storage path, a failed read of the metadata and a failed
  download are thrown; otherwise the answer of the extraction service to the
  request is passed on.
\<close>

lemma fetch_no_path:
  "storagePath data = None \<or> storagePath data = Some [] \<Longrightarrow>
   fst (fetchAndExtract env data w)
     = Inl (JsError ''Error'' ''Missing storagePath on invoice document.'')"
  by (auto simp: fetchAndExtract_def)

lemma fetch_metadata_fails:
  "storagePath data = Some sp \<Longrightarrow> sp \<noteq> [] \<Longrightarrow> getMetadata env sp = Inl err \<Longrightarrow>
   fst (fetchAndExtract env data w) = Inl err"
  by (simp add: fetchAndExtract_def Let_def)

lemma fetch_download_fails:
  "storagePath data = Some sp \<Longrightarrow> sp \<noteq> [] \<Longrightarrow> getMetadata env sp = Inr m \<Longrightarrow>
   download env sp = Inl err \<Longrightarrow> fst (fetchAndExtract env data w) = Inl err"
  by (simp add: fetchAndExtract_def Let_def)

lemma fetch_answer:
  "storagePath data = Some sp \<Longrightarrow> sp \<noteq> [] \<Longrightarrow> getMetadata env sp = Inr m \<Longrightarrow>
   download env sp = Inr buf \<Longrightarrow> projectId env = Some pid \<Longrightarrow> pid \<noteq> [] \<Longrightarrow>
   fst (fetchAndExtract env data w)
     = processDocument env
         \<lparr>name = ''projects/'' @ pid @ ''/locations/us/processors/de93e913f38aafe3'',
          content = buf,
          mimeType = orString (contentType data) (orString m ''application/pdf'')\<rparr>"
  by (simp add: fetchAndExtract_def Let_def DOCAI_LOCATION_def DOCAI_PROCESSOR_ID_def)

lemma map_filter_Some: "List.map_filter (\<lambda>e. e) (map Some es) = es"
  by (induction es) (simp_all add: map_filter_simps)

lemma normalizeEntities_null: "None \<in> set entities \<Longrightarrow> normalizeEntities entities = Inl nullTypeError"
  by (simp add: normalizeEntities_def)

lemma normalizeEntities_objects:
  "normalizeEntities (map Some es) = Inr (extractFields es, rawEntitiesOf es)"
  by (auto simp: normalizeEntities_def map_filter_Some)

lemma process_other:
  "i \<noteq> j \<Longrightarrow> docs (snd (processInvoiceDocument env j data ce w)) i = docs w i"
proof -
  assume ij: "i \<noteq> j"
  obtain r1 w1 where u1: "update j (startPatch ce) w = (r1, w1)"
    by (cases "update j (startPatch ce) w")
  have d1: "docs w1 i = docs w i" using update_other [OF ij, of "startPatch ce" w] u1 by simp
  obtain r2 w2 where f: "fetchAndExtract env data w1 = (r2, w2)"
    by (cases "fetchAndExtract env data w1")
  have d2: "docs w2 i = docs w i" using fetchAndExtract_docs [of env data w1] f d1 by simp
  have caught: "docs (snd (update j (errorPatch err) w2)) i = docs w i" for err
    using update_other [OF ij, of "errorPatch err" w2] d2 by simp
  show ?thesis
  proof (cases r1)
    case (Some e)
    then show ?thesis using u1 d1 by (simp add: processInvoiceDocument_def)
  next
    case None
    show ?thesis
    proof (cases r2)
      case (Inl err)
      then show ?thesis using None u1 f caught [of err]
        by (simp add: processInvoiceDocument_def)
    next
      case (Inr ents)
      show ?thesis
      proof (cases "normalizeEntities ents")
        case bad: (Inl err)
        then show ?thesis using None u1 f Inr caught [of err]
          by (simp add: processInvoiceDocument_def)
      next
        case good: (Inr fr)
        obtain flds raw where fr: "fr = (flds, raw)" by (cases fr)
        obtain r3 w3 where u3: "update j (successPatch flds raw) w2 = (r3, w3)"
          by (cases "update j (successPatch flds raw) w2")
        have d3: "docs w3 i = docs w i"
          using update_other [OF ij, of "successPatch flds raw" w2] u3 d2 by simp
        show ?thesis
        proof (cases r3)
          case written: None
          then show ?thesis using None u1 f Inr good fr u3 d3
            by (simp add: processInvoiceDocument_def)
        next
          case (Some err)
          then show ?thesis
            using None u1 f Inr good fr u3 d3 update_other [OF ij, of "errorPatch err" w3]
            by (simp add: processInvoiceDocument_def)
        qed
      qed
    qed
  qed
qed

text \<open>
  The processing body on a document that exists: it throws nothing, and the
  document it leaves is the one it found with the components of the last update
  replaced.
\<close>

lemma process_result:
  assumes d: "docs w j = Some d"
  shows "\<exists>w'. processInvoiceDocument env j data ce w = (None, w')
     \<and> docs w' j = Some
        (case (case fst (fetchAndExtract env data w) of
                 Inl err \<Rightarrow> Inl err
               | Inr entities \<Rightarrow> normalizeEntities entities) of
           Inl err \<Rightarrow>
             d\<lparr>status := Some ''error'', errorMessage := Some (errorString err),
               updatedAt := Some (ServerTime (Suc (clock w)))\<rparr>
         | Inr (flds, raw) \<Rightarrow>
             d\<lparr>status := Some ''needs_review'',
               errorMessage := (if ce then None else errorMessage d),
               extracted := flds, rawEntities := raw,
               extractedAt := Some (ServerTime (Suc (clock w))),
               updatedAt := Some (ServerTime (Suc (clock w)))\<rparr>)"
proof -
  define w1 where "w1 = w\<lparr>docs := (docs w)(j := Some (startPatch ce (ServerTime (clock w)) d)),
                            clock := Suc (clock w)\<rparr>"
  have u1: "update j (startPatch ce) w = (None, w1)"
    using update_found [OF d] by (simp add: w1_def)
  obtain r2 w2 where f: "fetchAndExtract env data w1 = (r2, w2)"
    by (cases "fetchAndExtract env data w1")
  have r2: "fst (fetchAndExtract env data w) = r2"
    using fetchAndExtract_result [of env data w1 w] f by simp
  have d2: "docs w2 j = Some (startPatch ce (ServerTime (clock w)) d)"
    and c2: "clock w2 = Suc (clock w)"
    using fetchAndExtract_docs [of env data w1] f by (simp_all add: w1_def)
  have caught: "\<exists>w'. update j (errorPatch err) w2 = (None, w')
      \<and> docs w' j = Some (d\<lparr>status := Some ''error'', errorMessage := Some (errorString err),
               updatedAt := Some (ServerTime (Suc (clock w)))\<rparr>)" for err
    using update_found [OF d2, of "errorPatch err"] c2
    by (cases ce) (auto simp add: errorPatch_def startPatch_def)
  show ?thesis
  proof (cases r2)
    case (Inl err)
    then show ?thesis using u1 f r2 caught [of err]
      by (simp add: processInvoiceDocument_def)
  next
    case (Inr ents)
    show ?thesis
    proof (cases "normalizeEntities ents")
      case bad: (Inl err)
      then show ?thesis using u1 f r2 Inr caught [of err]
        by (simp add: processInvoiceDocument_def)
    next
      case good: (Inr fr)
      obtain flds raw where fr: "fr = (flds, raw)" by (cases fr)
      then show ?thesis
        using u1 f r2 Inr good update_found [OF d2, of "successPatch flds raw"] c2
        by (cases ce) (auto simp add: processInvoiceDocument_def successPatch_def startPatch_def)
    qed
  qed
qed

text \<open>
  C2. The processing body on a stored invoice \<open>d\<close> throws nothing and leaves the
  invoice in the status \<open>needs_review\<close> or \<open>error\<close>, never \<open>processing\<close>. With \<open>sp\<close>
  the storage path of the data and \<open>request\<close> the request built from the
  downloaded bytes, the project id and the content type:
  \<^item> when the read of the metadata, the download or the call of the extraction
    service throws \<open>err\<close>, or the normalisation throws on the extracted list
    (a \<open>null\<close> element, \<open>err\<close> being the \<^verbatim>\<open>TypeError\<close> of reading its type), the
    invoice left is \<open>d\<close> with the status \<open>error\<close>, the error message
    \<open>String(err?.message || err)\<close> and a new update time: every other component,
    the extracted fields among them, is as it was;
  \<^item> when the storage path is missing, the same holds with the message of the
    error that the body throws itself;
  \<^item> when every call answers and the list has objects only, the invoice left is
    \<open>d\<close> with the status \<open>needs_review\<close>, the fields and the debug payload of the
    list, and the times of extraction and update.
\<close>

theorem processing_outcome:
  assumes "docs w j = Some d"
    and "request =
           \<lparr>name = ''projects/'' @ pid @ ''/locations/us/processors/de93e913f38aafe3'',
            content = buf,
            mimeType = orString (contentType data) (orString m ''application/pdf'')\<rparr>"
  shows "\<exists>w' d'. processInvoiceDocument env j data ce w = (None, w') \<and> docs w' j = Some d'
     \<and> status d' \<noteq> Some ''processing''
     \<and> (status d' = Some ''needs_review'' \<or> status d' = Some ''error'')
     \<and> (storagePath data = Some sp \<and> sp \<noteq> [] \<and>
          (getMetadata env sp = Inl err
           \<or> getMetadata env sp = Inr m \<and> download env sp = Inl err
           \<or> getMetadata env sp = Inr m \<and> download env sp = Inr buf
              \<and> projectId env = Some pid \<and> pid \<noteq> []
              \<and> (processDocument env request = Inl err
                  \<or> (\<exists>entities. processDocument env request = Inr entities
                        \<and> None \<in> set entities \<and> err = nullTypeError)))
        \<longrightarrow> d' = d\<lparr>status := Some ''error'', errorMessage := Some (errorString err),
                    updatedAt := Some (ServerTime (Suc (clock w)))\<rparr>
            \<and> extracted d' = extracted d)
     \<and> (storagePath data = None \<or> storagePath data = Some []
        \<longrightarrow> d' = d\<lparr>status := Some ''error'',
                    errorMessage := Some ''Missing storagePath on invoice document.'',
                    updatedAt := Some (ServerTime (Suc (clock w)))\<rparr>
            \<and> extracted d' = extracted d)
     \<and> (storagePath data = Some sp \<and> sp \<noteq> [] \<and> getMetadata env sp = Inr m
          \<and> download env sp = Inr buf \<and> projectId env = Some pid \<and> pid \<noteq> []
          \<and> processDocument env request = Inr (map Some es)
        \<longrightarrow> d' = d\<lparr>status := Some ''needs_review'',
                    errorMessage := (if ce then None else errorMessage d),
                    extracted := extractFields es, rawEntities := rawEntitiesOf es,
                    extractedAt := Some (ServerTime (Suc (clock w))),
                    updatedAt := Some (ServerTime (Suc (clock w)))\<rparr>)"
proof -
  define outcome where "outcome =
    (case fst (fetchAndExtract env data w) of
       Inl err \<Rightarrow> Inl err
     | Inr entities \<Rightarrow> normalizeEntities entities)"
  from process_result [OF assms(1), of env data ce] obtain w' where
    p: "processInvoiceDocument env j data ce w = (None, w')" and
    d': "docs w' j = Some
        (case outcome of
           Inl err \<Rightarrow>
             d\<lparr>status := Some ''error'', errorMessage := Some (errorString err),
               updatedAt := Some (ServerTime (Suc (clock w)))\<rparr>
         | Inr (flds, raw) \<Rightarrow>
             d\<lparr>status := Some ''needs_review'',
               errorMessage := (if ce then None else errorMessage d),
               extracted := flds, rawEntities := raw,
               extractedAt := Some (ServerTime (Suc (clock w))),
               updatedAt := Some (ServerTime (Suc (clock w)))\<rparr>)"
    unfolding outcome_def by blast
  have fails: "outcome = Inl err"
    if "storagePath data = Some sp \<and> sp \<noteq> [] \<and>
          (getMetadata env sp = Inl err
           \<or> getMetadata env sp = Inr m \<and> download env sp = Inl err
           \<or> getMetadata env sp = Inr m \<and> download env sp = Inr buf
              \<and> projectId env = Some pid \<and> pid \<noteq> []
              \<and> (processDocument env request = Inl err
                  \<or> (\<exists>entities. processDocument env request = Inr entities
                        \<and> None \<in> set entities \<and> err = nullTypeError)))"
    using that fetch_metadata_fails [of data sp env err w]
      fetch_download_fails [of data sp env m err w]
      fetch_answer [of data sp env m buf pid w] assms(2) normalizeEntities_null
    unfolding outcome_def by (auto split: sum.splits)
  have nopath: "outcome = Inl (JsError ''Error'' ''Missing storagePath on invoice document.'')"
    if "storagePath data = None \<or> storagePath data = Some []"
    using fetch_no_path [OF that, of env w] unfolding outcome_def by simp
  have succeeds: "outcome = Inr (extractFields es, rawEntitiesOf es)"
    if "storagePath data = Some sp \<and> sp \<noteq> [] \<and> getMetadata env sp = Inr m
          \<and> download env sp = Inr buf \<and> projectId env = Some pid \<and> pid \<noteq> []
          \<and> processDocument env request = Inr (map Some es)"
    using that fetch_answer [of data sp env m buf pid w] assms(2) normalizeEntities_objects [of es]
    unfolding outcome_def by simp
  show ?thesis
  proof (cases outcome)
    case (Inl e)
    with p d' fails nopath succeeds show ?thesis
      by (auto simp: errorString_def)
  next
    case (Inr fr)
    obtain flds raw where "fr = (flds, raw)" by (cases fr)
    with Inr p d' fails nopath succeeds show ?thesis
      by auto
  qed
qed

lemma normalizeEntities_example: "normalizeEntities [None] = Inl nullTypeError"
  by (simp add: normalizeEntities_def)

theorem processing_outcome_witness:
  "(\<exists>w' d'. processInvoiceDocument (exampleEnv (Inl (JsError ''Error'' ''quota exceeded'')))
       ''inv1'' (exampleInvoice ''uploaded'') True (exampleWorld ''uploaded'') = (None, w')
     \<and> docs w' ''inv1'' = Some d'
     \<and> status d' = Some ''error'' \<and> errorMessage d' = Some ''quota exceeded''
     \<and> extracted d' = noFields)
   \<and> (\<exists>w' d'. processInvoiceDocument (exampleEnv (Inr [None]))
       ''inv1'' (exampleInvoice ''uploaded'') True (exampleWorld ''uploaded'') = (None, w')
     \<and> docs w' ''inv1'' = Some d'
     \<and> status d' = Some ''error'' \<and> errorMessage d' = Some (message nullTypeError)
     \<and> extracted d' = noFields)"
proof -
  have d: "docs (exampleWorld ''uploaded'') ''inv1'' = Some (exampleInvoice ''uploaded'')"
    by (simp add: exampleWorld_def)
  define request where "request =
     \<lparr>name = ''projects/'' @ ''demo'' @ ''/locations/us/processors/de93e913f38aafe3'',
      content = ''%PDF'',
      mimeType = orString (contentType (exampleInvoice ''uploaded''))
                   (orString (Some ''application/pdf'') ''application/pdf'')\<rparr>"
  have path: "storagePath (exampleInvoice ''uploaded'') = Some ''invoices/alice/1_a.pdf''"
    by (simp add: exampleInvoice_def)
  have calls:
    "getMetadata (exampleEnv answer) ''invoices/alice/1_a.pdf'' = Inr (Some ''application/pdf'')"
    "download (exampleEnv answer) ''invoices/alice/1_a.pdf'' = Inr ''%PDF''"
    "projectId (exampleEnv answer) = Some ''demo''"
    "processDocument (exampleEnv answer) request = answer" for answer
    by (simp_all add: exampleInvoice_def exampleEnv_def)
  have a: "\<exists>w' d'. processInvoiceDocument (exampleEnv (Inl (JsError ''Error'' ''quota exceeded'')))
       ''inv1'' (exampleInvoice ''uploaded'') True (exampleWorld ''uploaded'') = (None, w')
     \<and> docs w' ''inv1'' = Some d'
     \<and> status d' = Some ''error'' \<and> errorMessage d' = Some ''quota exceeded''
     \<and> extracted d' = noFields"
    using processing_outcome [OF d request_def,
        where env = "exampleEnv (Inl (JsError ''Error'' ''quota exceeded''))" and ce = True
          and sp = "''invoices/alice/1_a.pdf''" and err = "JsError ''Error'' ''quota exceeded''"
          and es = "[]"]
      path calls [of "Inl (JsError ''Error'' ''quota exceeded'')"]
    by (auto simp: errorString_def exampleInvoice_def)
  have b: "\<exists>w' d'. processInvoiceDocument (exampleEnv (Inr [None]))
       ''inv1'' (exampleInvoice ''uploaded'') True (exampleWorld ''uploaded'') = (None, w')
     \<and> docs w' ''inv1'' = Some d'
     \<and> status d' = Some ''error'' \<and> errorMessage d' = Some (message nullTypeError)
     \<and> extracted d' = noFields"
    using processing_outcome [OF d request_def,
        where env = "exampleEnv (Inr [None])" and ce = True
          and sp = "''invoices/alice/1_a.pdf''" and err = nullTypeError and es = "[]"]
      path calls [of "Inr [None]"]
    by (auto simp: errorString_def exampleInvoice_def nullTypeError_def)
  from a b show ?thesis by blast
qed

lemma trim_blank: "list_all isSpace x \<Longrightarrow> trim x = []"
  by (auto simp: trim_def list_all_iff dest: set_dropWhileD)

lemma trim_inv1: "trim ''inv1'' = ''inv1''"
  by code_simp

lemma reprocess_success:
  assumes "truthy (authUid req)"
    and "i = trim (case invoiceIdArg req of None \<Rightarrow> [] | Some x \<Rightarrow> x)" and "i \<noteq> []"
    and "docs w i = Some d" and "userId d = authUid req"
    and "status d \<noteq> Some ''finalized''" and "truthy (storagePath d)"
  shows "reprocessInvoiceV2 env req w =
           (Inr \<lparr>ok = True\<rparr>, snd (processInvoiceDocument env i d True w))
         \<and> fst (processInvoiceDocument env i d True w) = None"
proof -
  from process_result [OF assms(4), of env d True] obtain w' where
    "processInvoiceDocument env i d True w = (None, w')" by blast
  with assms show ?thesis by (simp add: reprocessInvoiceV2_def Let_def)
qed

text \<open>
  C3. A reprocess request, \<open>i\<close> being its invoice id after trimming (empty when
  the id is missing or blank): without a caller identity it fails with
  \<open>Unauthenticated\<close>; for a caller \<open>uid\<close>, with \<open>i\<close> empty it fails with
  \<open>InvalidArgument\<close>, with no document stored under \<open>i\<close> with \<open>NotFound\<close>, with a
  document of another owner with \<open>PermissionDenied\<close>, with a finalized document
  or one without storage path (null, or the empty string, which the code treats
  alike) with \<open>FailedPrecondition\<close>; in each of these cases the state is left as
  it was, so nothing is written, read from storage or sent to the extraction
  service. Otherwise the processing body runs on the document, throws nothing,
  and the call returns \<open>{ok: true}\<close>.
\<close>

theorem reprocess_outcomes:
  assumes "i = trim (case invoiceIdArg req of None \<Rightarrow> [] | Some x \<Rightarrow> x)"
  shows "(authUid req = None \<or> authUid req = Some [] \<longrightarrow>
            reprocessInvoiceV2 env req w
              = (Inl (HttpsError Unauthenticated ''Sign in required.''), w))
       \<and> (invoiceIdArg req = None \<or> (\<exists>x. invoiceIdArg req = Some x \<and> list_all isSpace x)
            \<longrightarrow> i = [])
       \<and> (authUid req = Some uid \<and> uid \<noteq> [] \<longrightarrow>
            (i = [] \<longrightarrow>
               reprocessInvoiceV2 env req w
                 = (Inl (HttpsError InvalidArgument ''Missing invoiceId.''), w))
          \<and> (i \<noteq> [] \<and> docs w i = None \<longrightarrow>
               reprocessInvoiceV2 env req w
                 = (Inl (HttpsError NotFound ''Invoice not found.''), w))
          \<and> (i \<noteq> [] \<and> docs w i = Some d \<and> userId d \<noteq> Some uid \<longrightarrow>
               reprocessInvoiceV2 env req w
                 = (Inl (HttpsError PermissionDenied ''Not allowed.''), w))
          \<and> (i \<noteq> [] \<and> docs w i = Some d \<and> userId d = Some uid
               \<and> (status d = Some ''finalized'' \<or> storagePath d = None
                    \<or> storagePath d = Some []) \<longrightarrow>
               (\<exists>msg. reprocessInvoiceV2 env req w
                         = (Inl (HttpsError FailedPrecondition msg), w)))
          \<and> (i \<noteq> [] \<and> docs w i = Some d \<and> userId d = Some uid
               \<and> status d \<noteq> Some ''finalized'' \<and> storagePath d = Some sp \<and> sp \<noteq> [] \<longrightarrow>
               reprocessInvoiceV2 env req w
                 = (Inr \<lparr>ok = True\<rparr>, snd (processInvoiceDocument env i d True w))
               \<and> fst (processInvoiceDocument env i d True w) = None))"
proof -
  have blank: "invoiceIdArg req = None \<or> (\<exists>x. invoiceIdArg req = Some x \<and> list_all isSpace x)
            \<longrightarrow> i = []"
  proof (cases "invoiceIdArg req")
    case None
    with assms show ?thesis by (simp add: trim_def)
  next
    case (Some x)
    with assms trim_blank [of x] show ?thesis by auto
  qed
  have unauth: "authUid req = None \<or> authUid req = Some [] \<longrightarrow>
            reprocessInvoiceV2 env req w
              = (Inl (HttpsError Unauthenticated ''Sign in required.''), w)"
    by (auto simp: reprocessInvoiceV2_def truthy_def)
  have guards: "authUid req = Some uid \<and> uid \<noteq> [] \<longrightarrow>
            (i = [] \<longrightarrow>
               reprocessInvoiceV2 env req w
                 = (Inl (HttpsError InvalidArgument ''Missing invoiceId.''), w))
          \<and> (i \<noteq> [] \<and> docs w i = None \<longrightarrow>
               reprocessInvoiceV2 env req w
                 = (Inl (HttpsError NotFound ''Invoice not found.''), w))
          \<and> (i \<noteq> [] \<and> docs w i = Some d \<and> userId d \<noteq> Some uid \<longrightarrow>
               reprocessInvoiceV2 env req w
                 = (Inl (HttpsError PermissionDenied ''Not allowed.''), w))
          \<and> (i \<noteq> [] \<and> docs w i = Some d \<and> userId d = Some uid
               \<and> (status d = Some ''finalized'' \<or> storagePath d = None
                    \<or> storagePath d = Some []) \<longrightarrow>
               (\<exists>msg. reprocessInvoiceV2 env req w
                         = (Inl (HttpsError FailedPrecondition msg), w)))"
    using assms by (auto simp: reprocessInvoiceV2_def Let_def truthy_def)
  have run: "authUid req = Some uid \<and> uid \<noteq> [] \<and> i \<noteq> [] \<and> docs w i = Some d
               \<and> userId d = Some uid
               \<and> status d \<noteq> Some ''finalized'' \<and> storagePath d = Some sp \<and> sp \<noteq> [] \<longrightarrow>
               reprocessInvoiceV2 env req w
                 = (Inr \<lparr>ok = True\<rparr>, snd (processInvoiceDocument env i d True w))
               \<and> fst (processInvoiceDocument env i d True w) = None"
    using reprocess_success [of req i w d env] assms by (simp add: truthy_def)
  from blank unauth guards run show ?thesis by blast
qed

theorem reprocess_outcomes_witness:
  "reprocessInvoiceV2 (exampleEnv (Inr [])) (exampleRequest None (Some ''inv1''))
       (exampleWorld ''error'')
     = (Inl (HttpsError Unauthenticated ''Sign in required.''), exampleWorld ''error'')
   \<and> reprocessInvoiceV2 (exampleEnv (Inr [])) (exampleRequest (Some ''bob'') (Some ''inv1''))
       (exampleWorld ''error'')
     = (Inl (HttpsError PermissionDenied ''Not allowed.''), exampleWorld ''error'')
   \<and> (\<exists>msg. reprocessInvoiceV2 (exampleEnv (Inr []))
         (exampleRequest (Some ''alice'') (Some ''inv1'')) (exampleWorld ''finalized'')
     = (Inl (HttpsError FailedPrecondition msg), exampleWorld ''finalized''))
   \<and> fst (reprocessInvoiceV2 (exampleEnv (Inr []))
         (exampleRequest (Some ''alice'') (Some ''inv1'')) (exampleWorld ''error''))
     = Inr \<lparr>ok = True\<rparr>"
proof -
  have i: "''inv1'' = trim (case invoiceIdArg (exampleRequest u (Some ''inv1'')) of
                             None \<Rightarrow> [] | Some x \<Rightarrow> x)" for u
    by (simp add: exampleRequest_def trim_inv1)
  have a: "reprocessInvoiceV2 (exampleEnv (Inr [])) (exampleRequest None (Some ''inv1''))
       (exampleWorld ''error'')
     = (Inl (HttpsError Unauthenticated ''Sign in required.''), exampleWorld ''error'')"
    using reprocess_outcomes [OF i, of None "exampleEnv (Inr [])" "exampleWorld ''error''"]
    by (simp add: exampleRequest_def)
  have b: "reprocessInvoiceV2 (exampleEnv (Inr [])) (exampleRequest (Some ''bob'') (Some ''inv1''))
       (exampleWorld ''error'')
     = (Inl (HttpsError PermissionDenied ''Not allowed.''), exampleWorld ''error'')"
    using reprocess_outcomes [OF i, of "Some ''bob''" "exampleEnv (Inr [])"
        "exampleWorld ''error''" "''bob''" "exampleInvoice ''error''"]
    by (simp add: exampleRequest_def exampleWorld_def exampleInvoice_def)
  have c: "\<exists>msg. reprocessInvoiceV2 (exampleEnv (Inr []))
         (exampleRequest (Some ''alice'') (Some ''inv1'')) (exampleWorld ''finalized'')
     = (Inl (HttpsError FailedPrecondition msg), exampleWorld ''finalized'')"
    using reprocess_outcomes [OF i, of "Some ''alice''" "exampleEnv (Inr [])"
        "exampleWorld ''finalized''" "''alice''" "exampleInvoice ''finalized''"]
    by (simp add: exampleRequest_def exampleWorld_def exampleInvoice_def)
  have d: "fst (reprocessInvoiceV2 (exampleEnv (Inr []))
         (exampleRequest (Some ''alice'') (Some ''inv1'')) (exampleWorld ''error''))
     = Inr \<lparr>ok = True\<rparr>"
    using reprocess_outcomes [OF i, of "Some ''alice''" "exampleEnv (Inr [])"
        "exampleWorld ''error''" "''alice''" "exampleInvoice ''error''"
        "''invoices/alice/1_a.pdf''"]
    by (simp add: exampleRequest_def exampleWorld_def exampleInvoice_def)
  from a b c d show ?thesis by blast
qed

text \<open>
  C4. The handler of the document-created event, on the data \<open>data\<close> of the
  event's snapshot: when the status is not \<open>uploaded\<close>, or the skip-processing
  flag is set, it leaves the state as it was (for the status \<open>needs_review\<close>: no
  document changes and no call of the extraction service is made); when the
  status is \<open>uploaded\<close> and the flag is not set it runs the processing body; and
  whenever it does anything but leave the state as it was, the status was
  \<open>uploaded\<close> and the flag was not set.
\<close>

theorem onCreate_guard:
  "(snapData snap = Some data \<and> (status data \<noteq> Some ''uploaded'' \<or> skipProcessing data) \<longrightarrow>
      processInvoiceOnCreateV2 env (Some snap) w = (None, w))
   \<and> (snapData snap = Some data \<and> status data = Some ''needs_review'' \<longrightarrow>
      docs (snd (processInvoiceOnCreateV2 env (Some snap) w)) = docs w
      \<and> docaiCalls (snd (processInvoiceOnCreateV2 env (Some snap) w)) = docaiCalls w)
   \<and> (snapData snap = Some data \<and> status data = Some ''uploaded'' \<and> \<not> skipProcessing data \<longrightarrow>
      processInvoiceOnCreateV2 env (Some snap) w
        = processInvoiceDocument env (snapRef snap) data True w)
   \<and> (processInvoiceOnCreateV2 env event w \<noteq> (None, w) \<longrightarrow>
      (\<exists>sn dt. event = Some sn \<and> snapData sn = Some dt
         \<and> status dt = Some ''uploaded'' \<and> \<not> skipProcessing dt))"
  by (auto simp: processInvoiceOnCreateV2_def split: option.splits)

theorem onCreate_guard_witness:
  "processInvoiceOnCreateV2 (exampleEnv (Inr []))
       (Some \<lparr>snapRef = ''inv1'', snapData = Some (exampleInvoice ''needs_review'')\<rparr>)
       (exampleWorld ''needs_review'') = (None, exampleWorld ''needs_review'')
   \<and> processInvoiceOnCreateV2 (exampleEnv (Inr []))
       (Some \<lparr>snapRef = ''inv1'', snapData = Some (exampleInvoice ''uploaded'')\<rparr>)
       (exampleWorld ''uploaded'')
     = processInvoiceDocument (exampleEnv (Inr [])) ''inv1'' (exampleInvoice ''uploaded'') True
         (exampleWorld ''uploaded'')"
  using onCreate_guard [of "\<lparr>snapRef = ''inv1'', snapData = Some (exampleInvoice ''needs_review'')\<rparr>"
      "exampleInvoice ''needs_review''" "exampleEnv (Inr [])" "exampleWorld ''needs_review''"]
    onCreate_guard [of "\<lparr>snapRef = ''inv1'', snapData = Some (exampleInvoice ''uploaded'')\<rparr>"
      "exampleInvoice ''uploaded''" "exampleEnv (Inr [])" "exampleWorld ''uploaded''"]
  by (simp add: exampleInvoice_def)

text \<open>An upload event on a stored invoice does start the processing.\<close>

lemma onCreate_processes_upload:
  "\<exists>w' d'. processInvoiceOnCreateV2 (exampleEnv (Inr []))
       (Some \<lparr>snapRef = ''inv1'', snapData = Some (exampleInvoice ''uploaded'')\<rparr>)
       (exampleWorld ''uploaded'') = (None, w')
     \<and> docs w' ''inv1'' = Some d' \<and> status d' = Some ''needs_review''
     \<and> errorMessage d' = None \<and> extractedAt d' = Some (ServerTime 6)
     \<and> length (docaiCalls w') = 1"
  by (simp add: processInvoiceOnCreateV2_def processInvoiceDocument_def update_def
      fetchAndExtract_def exampleEnv_def exampleWorld_def exampleInvoice_def Let_def
      startPatch_def successPatch_def DOCAI_PROCESSOR_ID_def normalizeEntities_def)

lemma reprocess_run:
  "snd (case p of (Some e, w') \<Rightarrow> (Inl (Uncaught e), w') | (None, w') \<Rightarrow> (Inr \<lparr>ok = True\<rparr>, w'))
     = snd p"
  by (cases p; cases "fst p") auto

lemma reprocess_keeps_finalized:
  assumes "docs w i = Some d" "status d = Some ''finalized''"
  shows "docs (snd (reprocessInvoiceV2 env req w)) i = Some d"
proof -
  define j where "j = trim (case invoiceIdArg req of None \<Rightarrow> [] | Some x \<Rightarrow> x)"
  show ?thesis
  proof (cases "j = i")
    case True
    with assms show ?thesis
      by (auto simp add: reprocessInvoiceV2_def Let_def j_def [symmetric])
  next
    case False
    then have "docs (snd (processInvoiceDocument env j data True w)) i = docs w i" for data
      using process_other [of i j env data True w] by simp
    with assms show ?thesis
      by (auto simp add: reprocessInvoiceV2_def Let_def j_def [symmetric] reprocess_run
          split: option.splits)
  qed
qed

lemma reprocess_finalized_fails:
  assumes "docs w i = Some d" "status d = Some ''finalized''"
    "trim (case invoiceIdArg req of None \<Rightarrow> [] | Some x \<Rightarrow> x) = i"
  shows "\<exists>code msg. reprocessInvoiceV2 env req w = (Inl (HttpsError code msg), w)"
  using assms by (auto simp add: reprocessInvoiceV2_def Let_def)

lemma onCreate_keeps_finalized:
  assumes "docs w i = Some d" "status d = Some ''finalized''"
    "snapRef snap = i \<longrightarrow> snapData snap = Some d"
  shows "docs (snd (processInvoiceOnCreateV2 env (Some snap) w)) i = Some d"
proof (cases "snapRef snap = i")
  case True
  with assms show ?thesis by (simp add: processInvoiceOnCreateV2_def)
next
  case False
  then have "docs (snd (processInvoiceDocument env (snapRef snap) data True w)) i = docs w i"
    for data
    using process_other [of i "snapRef snap" env data True w] by simp
  with assms show ?thesis
    by (simp add: processInvoiceOnCreateV2_def split: option.splits)
qed

lemma save_keeps_finalized:
  assumes "docs w i = Some d" "status d = Some ''finalized''"
    "pageInvoiceId pg = i \<longrightarrow> inv pg = Some d"
  shows "docs (snd (save br pg st w)) i = Some d"
proof (cases "pageInvoiceId pg = i")
  case True
  with assms show ?thesis by (simp add: save_def isFinalized_def)
next
  case False
  then show ?thesis using assms update_other [of i "pageInvoiceId pg" "savePatch br pg st" w]
    by (simp add: save_def)
qed

text \<open>On an invoice that is not finalized the page does write.\<close>

lemma save_writes_when_open:
  "\<exists>w' d'. save exampleBrowser (examplePage ''needs_review'') ''finalized''
       (exampleWorld ''needs_review'') = (None, w')
     \<and> docs w' ''inv1'' = Some d' \<and> status d' = Some ''finalized''
     \<and> finalizedAt d' = Some (ServerTime 5)"
  by (simp add: save_def canEdit_def isFinalized_def examplePage_def exampleInvoice_def
      exampleWorld_def update_def savePatch_def)

text \<open>
  The trigger, the reprocess request and the \<open>save\<close> of the review page in
  \<^verbatim>\<open>src/unnamed/part_002\<close> on a finalized invoice \<open>d\<close> stored under \<open>i\<close>, when the
  event and the page carry the stored data: an event for \<open>i\<close> is ignored, every
  reprocess request leaves \<open>d\<close> stored, one for \<open>i\<close> fails with the state as it
  was, and the page writes nothing.
\<close>

lemma guarded_paths_keep_finalized:
  assumes "docs w i = Some d" and "status d = Some ''finalized''"
  shows "((snapRef snap = i \<longrightarrow> snapData snap = Some d) \<longrightarrow>
            docs (snd (processInvoiceOnCreateV2 env (Some snap) w)) i = Some d)
       \<and> (snapRef snap = i \<and> snapData snap = Some d \<longrightarrow>
            processInvoiceOnCreateV2 env (Some snap) w = (None, w))
       \<and> docs (snd (reprocessInvoiceV2 env req w)) i = Some d
       \<and> (trim (case invoiceIdArg req of None \<Rightarrow> [] | Some x \<Rightarrow> x) = i \<longrightarrow>
            (\<exists>code msg. reprocessInvoiceV2 env req w = (Inl (HttpsError code msg), w)))
       \<and> ((pageInvoiceId pg = i \<longrightarrow> inv pg = Some d) \<longrightarrow>
            docs (snd (save br pg st w)) i = Some d)
       \<and> (pageInvoiceId pg = i \<and> inv pg = Some d \<longrightarrow> save br pg st w = (None, w))"
proof -
  have a: "snapRef snap = i \<and> snapData snap = Some d \<longrightarrow>
            processInvoiceOnCreateV2 env (Some snap) w = (None, w)"
    using assms by (simp add: processInvoiceOnCreateV2_def)
  have b: "pageInvoiceId pg = i \<and> inv pg = Some d \<longrightarrow> save br pg st w = (None, w)"
    using assms by (simp add: save_def isFinalized_def)
  from a b onCreate_keeps_finalized [OF assms, of snap env]
    reprocess_keeps_finalized [OF assms, of env req]
    reprocess_finalized_fails [OF assms, of req env]
    save_keeps_finalized [OF assms, of pg br st]
  show ?thesis by blast
qed

text \<open>
  The trigger tests the status of the event's snapshot, not the stored one: an
  event that still says \<open>uploaded\<close> for an invoice finalized since is processed.
\<close>

lemma stale_event_rewrites_finalized:
  "\<exists>w' d'. processInvoiceOnCreateV2 (exampleEnv (Inr []))
       (Some \<lparr>snapRef = ''inv1'', snapData = Some (exampleInvoice ''uploaded'')\<rparr>)
       (exampleWorld ''finalized'') = (None, w')
     \<and> docs w' ''inv1'' = Some d' \<and> status d' = Some ''needs_review''"
  by (simp add: processInvoiceOnCreateV2_def processInvoiceDocument_def update_def
      fetchAndExtract_def exampleEnv_def exampleWorld_def exampleInvoice_def Let_def
      startPatch_def successPatch_def DOCAI_PROCESSOR_ID_def normalizeEntities_def)

text \<open>
  C1. No operation is to change an invoice whose stored status is \<open>finalized\<close>;
  in particular the save and finalize path of the review page is to be blocked.
  The copy of the page in \<^verbatim>\<open>src/unnamed/part_002\<close> blocks it
  (\<open>guarded_paths_keep_finalized\<close>). The copy in
  \<^verbatim>\<open>src/app/invoices/[id]/page.tsx\<close> shows its buttons Save and Finalize for every
  status and its \<open>save\<close> does not test the status: on the finalized invoice of
  its owner, Save writes the form, sets the status back to \<open>needs_review\<close> and
  clears the time of finalization.
\<close>

theorem unguarded_save_rewrites_finalized:
  "status (exampleInvoice ''finalized'') = Some ''finalized''
   \<and> docs (exampleWorld ''finalized'') ''inv1'' = Some (exampleInvoice ''finalized'')
   \<and> finalizedAt (exampleInvoice ''finalized'') = Some (ServerTime 3)
   \<and> inv (examplePage ''finalized'') = Some (exampleInvoice ''finalized'')
   \<and> (\<exists>w'. save_invoices_id_page exampleBrowser (examplePage ''finalized'') ''needs_review''
              (exampleWorld ''finalized'') = (None, w')
         \<and> docs w' ''inv1'' =
             Some ((exampleInvoice ''finalized'')
               \<lparr>extracted := noFields\<lparr>supplierName := Some ''Acme'', invoiceNumber := Some ''7''\<rparr>,
                status := Some ''needs_review'',
                updatedAt := Some (ServerTime 5),
                finalizedAt := None\<rparr>))
   \<and> save exampleBrowser (examplePage ''finalized'') ''needs_review''
        (exampleWorld ''finalized'') = (None, exampleWorld ''finalized'')"
  by (simp add: save_invoices_id_page_def save_def canEdit_def isFinalized_def
      examplePage_def exampleInvoice_def exampleWorld_def update_def savePatch_def
      orNull_def numOrNull_def dateInputToTimestamp_def noFields_def)

theorem unguarded_save_rewrites_finalized_witness:
  "\<exists>w' d'. save_invoices_id_page exampleBrowser (examplePage ''finalized'') ''needs_review''
              (exampleWorld ''finalized'') = (None, w')
     \<and> docs w' ''inv1'' = Some d' \<and> status d' = Some ''needs_review''
     \<and> finalizedAt d' = None
     \<and> status d' \<noteq> status (exampleInvoice ''finalized'')"
proof -
  from unguarded_save_rewrites_finalized obtain w' where
    s: "save_invoices_id_page exampleBrowser (examplePage ''finalized'') ''needs_review''
              (exampleWorld ''finalized'') = (None, w')"
    and d: "docs w' ''inv1'' =
             Some ((exampleInvoice ''finalized'')
               \<lparr>extracted := noFields\<lparr>supplierName := Some ''Acme'', invoiceNumber := Some ''7''\<rparr>,
                status := Some ''needs_review'',
                updatedAt := Some (ServerTime 5),
                finalizedAt := None\<rparr>)"
    and st: "status (exampleInvoice ''finalized'') = Some ''finalized''"
    by blast
  from s d st show ?thesis by simp
qed

end
